theory Spec2Isabelle
  imports Complex_Main "HOL-Library.Log_Nat" "HOL-Library.AList"
begin

section \<open>Python values used by the evaluation script\<close>

text \<open>
  The script \<^verbatim>\<open>ragas-evaluation.py\<close> computes with Python ints and floats. A float is
  an IEEE binary64 number; it is represented here by the rational number it denotes, and
  every float operation of the script is the exact operation followed by rounding to the
  nearest binary64 value (ties to even), which is what CPython does for \<^verbatim>\<open>int / int\<close>,
  \<^verbatim>\<open>float / float\<close>, \<^verbatim>\<open>float(Fraction)\<close> and the string round trip inside
  \<^verbatim>\<open>round(x, 3)\<close>. Infinities and NaN do not occur: every float of the script is a
  quotient of bounded non-negative integers or a mean of such values.
\<close>

datatype py_error =
  FileNotFoundError | ZeroDivisionError | StatisticsError | KeyError | TypeError

datatype pynum = is_PInt: PInt int | PFloat rat

fun num_val :: "pynum \<Rightarrow> rat" where
  "num_val (PInt i) = of_int i"
| "num_val (PFloat x) = x"

definition py_bind :: "py_error + 'a \<Rightarrow> ('a \<Rightarrow> py_error + 'b) \<Rightarrow> py_error + 'b" where
  "py_bind m f = (case m of Inl e \<Rightarrow> Inl e | Inr v \<Rightarrow> f v)"

subsection \<open>Rounding to binary64 and to three decimals\<close>

definition round_half_even :: "rat \<Rightarrow> int" where
  "round_half_even x =
     (let f = \<lfloor>x\<rfloor>; d = x - of_int f
      in if d < 1 / 2 then f else if 1 / 2 < d then f + 1 else if even f then f else f + 1)"

text \<open>For \<open>q > 0\<close>, the \<open>e\<close> with \<open>2 ^ e \<le> q < 2 ^ (e + 1)\<close>.\<close>

definition binary_exponent :: "rat \<Rightarrow> int" where
  "binary_exponent q =
     (if 1 \<le> q then bitlen \<lfloor>q\<rfloor> - 1 else - bitlen (\<lceil>1 / q\<rceil> - 1))"

text \<open>
  The nearest binary64 value: 53 significant bits, the spacing never below \<open>2 ^ -1074\<close>
  (the subnormal range). Overflow is not modelled.
\<close>

definition to_double :: "rat \<Rightarrow> rat" where
  "to_double q =
     (if q = 0 then 0
      else let ulp = 2 powi (max (binary_exponent \<bar>q\<bar> - 52) (- 1074))
           in of_int (round_half_even (q / ulp)) * ulp)"

text \<open>\<^verbatim>\<open>a / b\<close>: true division, a float whatever the operand types.\<close>

definition py_truediv :: "pynum \<Rightarrow> pynum \<Rightarrow> py_error + pynum" where
  "py_truediv a b =
     (if num_val b = 0 then Inl ZeroDivisionError
      else Inr (PFloat (to_double (num_val a / num_val b))))"

text \<open>\<^verbatim>\<open>min(a, b)\<close> keeps the first argument unless the second is smaller.\<close>

definition py_min :: "pynum \<Rightarrow> pynum \<Rightarrow> pynum" where
  "py_min a b = (if num_val b < num_val a then b else a)"

text \<open>
  \<^verbatim>\<open>round(x, 3)\<close>: an int is returned unchanged; a float is rounded, as the exact
  number it is, to three decimals (ties to even) and the decimal is read back as a float.
\<close>

fun py_round3 :: "pynum \<Rightarrow> pynum" where
  "py_round3 (PInt i) = PInt i"
| "py_round3 (PFloat x) = PFloat (to_double (of_int (round_half_even (x * 1000)) / 1000))"

text \<open>
  \<^verbatim>\<open>statistics.mean(data)\<close>: raises on no data; sums exactly; the mean of ints is an int
  when it is whole, in every other case the exact mean converted to a float.
\<close>

definition statistics_mean :: "pynum list \<Rightarrow> py_error + pynum" where
  "statistics_mean data =
     (if data = [] then Inl StatisticsError
      else let total = sum_list (map num_val data);
               n = of_nat (length data);
               m = total / n
           in if list_all is_PInt data \<and> of_int \<lfloor>m\<rfloor> = m then Inr (PInt \<lfloor>m\<rfloor>)
              else Inr (PFloat (to_double m)))"

section \<open>Python strings\<close>

text \<open>
  A string is a list of characters, each a code point below 256; \<^verbatim>\<open>len\<close> is the length
  of the list. \<^verbatim>\<open>str.isspace\<close> and \<^verbatim>\<open>str.lower\<close> are those of Python on that range.
\<close>

definition isspace :: "char \<Rightarrow> bool" where
  "isspace c =
     (let n = (of_char c :: nat)
      in (9 \<le> n \<and> n \<le> 13) \<or> (28 \<le> n \<and> n \<le> 32) \<or> n = 133 \<or> n = 160)"

definition lower_char :: "char \<Rightarrow> char" where
  "lower_char c =
     (let n = (of_char c :: nat)
      in if (65 \<le> n \<and> n \<le> 90) \<or> (192 \<le> n \<and> n \<le> 222 \<and> n \<noteq> 215)
         then char_of (n + 32) else c)"

definition lower :: "string \<Rightarrow> string" where
  "lower s = map lower_char s"

text \<open>\<^verbatim>\<open>s.split()\<close>: the maximal runs of non-whitespace characters, in order.\<close>

fun split_from :: "string \<Rightarrow> string \<Rightarrow> string list" where
  "split_from cur [] = (if cur = [] then [] else [cur])"
| "split_from cur (c # cs) =
     (if isspace c then (if cur = [] then split_from [] cs else cur # split_from [] cs)
      else split_from (cur @ [c]) cs)"

definition split :: "string \<Rightarrow> string list" where
  "split s = split_from [] s"

text \<open>\<^verbatim>\<open>sep.join(parts)\<close>.\<close>

fun join :: "string \<Rightarrow> string list \<Rightarrow> string" where
  "join sep [] = []"
| "join sep [x] = x"
| "join sep (x # y # ys) = x @ sep @ join sep (y # ys)"

section \<open>The heuristic scorer\<close>

text \<open>\<^verbatim>\<open>_calculate_faithfulness_heuristic(response, context)\<close>\<close>

definition calculate_faithfulness_heuristic :: "string \<Rightarrow> string list \<Rightarrow> py_error + pynum" where
  "calculate_faithfulness_heuristic response context =
     (if context = [] \<or> response = [] then Inr (PFloat 0)
      else let response_words = set (split (lower response));
               context_text = lower (join '' '' context);
               context_words = set (split context_text);
               overlap = card (response_words \<inter> context_words);
               total = card response_words
           in py_bind
                (if 0 < total then py_truediv (PInt (int overlap)) (PInt (int total))
                 else Inr (PInt 0))
                (\<lambda>q. Inr (py_round3 (py_min q (PFloat 1)))))"

text \<open>\<^verbatim>\<open>_calculate_relevancy_heuristic(query, response)\<close>\<close>

definition calculate_relevancy_heuristic :: "string \<Rightarrow> string \<Rightarrow> py_error + pynum" where
  "calculate_relevancy_heuristic query_text response =
     (if query_text = [] \<or> response = [] then Inr (PFloat 0)
      else let query_words = set (split (lower query_text));
               response_words = set (split (lower response));
               overlap = card (query_words \<inter> response_words);
               total = card query_words
           in py_bind
                (if 0 < total then py_truediv (PInt (int overlap)) (PInt (int total))
                 else Inr (PInt 0))
                (\<lambda>q. Inr (py_round3 (py_min q (PFloat 1)))))"

text \<open>\<^verbatim>\<open>_calculate_precision_heuristic(context)\<close>\<close>

definition calculate_precision_heuristic :: "string list \<Rightarrow> py_error + pynum" where
  "calculate_precision_heuristic context =
     (if context = [] then Inr (PFloat 0)
      else py_bind
             (if context \<noteq> [] then statistics_mean (map (\<lambda>c. PInt (int (length c))) context)
              else Inr (PInt 0))
             (\<lambda>avg_length. py_bind (py_truediv avg_length (PInt 500))
             (\<lambda>q. Inr (py_round3 (py_min q (PFloat 1))))))"

text \<open>\<^verbatim>\<open>_calculate_recall_heuristic(context)\<close>\<close>

definition calculate_recall_heuristic :: "string list \<Rightarrow> py_error + pynum" where
  "calculate_recall_heuristic context =
     (if context = [] then Inr (PFloat 0)
      else py_bind (py_truediv (PInt (int (length context))) (PInt 10))
             (\<lambda>q. Inr (py_round3 (py_min q (PFloat 1)))))"

section \<open>Records, evaluations and the evaluator\<close>

text \<open>
  The input document is a JSON object with an optional key \<^verbatim>\<open>results\<close>; each result
  object has optional keys, read by the script with \<^verbatim>\<open>dict.get(key, default)\<close>. An
  absent key is \<open>None\<close> here; a key that is present holds a value of the type the input
  format gives it (a string, a list of strings, a number, an object).
\<close>

record raw_metadata =
  userRole :: "string option"
  processingTimeMs :: "pynum option"
  sourceCount :: "pynum option"
  sessionId :: "string option"
  in_timestamp :: "string option"

record raw_result =
  in_query :: "string option"
  in_generated_response :: "string option"
  in_retrieved_documents :: "string list option"
  in_metadata :: "raw_metadata option"

record document =
  doc_results :: "raw_result list option"

definition dict_get :: "'a option \<Rightarrow> 'a \<Rightarrow> 'a" where
  "dict_get field dflt = (case field of None \<Rightarrow> dflt | Some v \<Rightarrow> v)"

text \<open>The empty dict \<^verbatim>\<open>{}\<close> that \<^verbatim>\<open>result.get("metadata", {})\<close> defaults to.\<close>

definition empty_metadata :: raw_metadata where
  "empty_metadata =
     \<lparr>userRole = None, processingTimeMs = None, sourceCount = None, sessionId = None,
      in_timestamp = None\<rparr>"

record metric_set =
  faithfulness :: pynum
  answer_relevancy :: pynum
  context_precision :: pynum
  context_recall :: pynum

record eval_metadata =
  user_role :: string
  processing_time_ms :: pynum
  source_count :: pynum
  session_id :: string
  timestamp :: string

record evaluation =
  query :: string
  metrics :: metric_set
  metadata :: eval_metadata
  overall_score :: pynum

text \<open>The attributes of a \<^verbatim>\<open>RagasEvaluator\<close> object.\<close>

record evaluator =
  results_file :: string
  results :: "raw_result list"
  evaluations :: "evaluation list"

text \<open>
  \<^verbatim>\<open>load_results\<close>: the file system is a map from file names to parsed documents;
  a missing file raises.
\<close>

definition load_results :: "(string \<rightharpoonup> document) \<Rightarrow> evaluator \<Rightarrow> py_error + evaluator" where
  "load_results fs self =
     (case fs (results_file self) of
        None \<Rightarrow> Inl FileNotFoundError
      | Some data \<Rightarrow> Inr (self\<lparr>results := dict_get (doc_results data) []\<rparr>))"

text \<open>\<^verbatim>\<open>RagasEvaluator.__init__\<close>\<close>

definition init_evaluator :: "(string \<rightharpoonup> document) \<Rightarrow> string \<Rightarrow> py_error + evaluator" where
  "init_evaluator fs file =
     load_results fs \<lparr>results_file = file, results = [], evaluations = []\<rparr>"

text \<open>\<^verbatim>\<open>round(statistics.mean(data), 3)\<close>\<close>

definition rounded_mean :: "pynum list \<Rightarrow> py_error + pynum" where
  "rounded_mean data = py_bind (statistics_mean data) (\<lambda>m. Inr (py_round3 m))"

text \<open>\<^verbatim>\<open>_evaluate_result_heuristic(result)\<close>\<close>

definition evaluate_result_heuristic :: "raw_result \<Rightarrow> py_error + evaluation" where
  "evaluate_result_heuristic result =
     (let query_text = dict_get (in_query result) [];
          response = dict_get (in_generated_response result) [];
          context = dict_get (in_retrieved_documents result) [];
          md = dict_get (in_metadata result) empty_metadata
      in py_bind (calculate_faithfulness_heuristic response context) (\<lambda>faithfulness_score.
         py_bind (calculate_relevancy_heuristic query_text response) (\<lambda>relevancy_score.
         py_bind (calculate_precision_heuristic context) (\<lambda>precision_score.
         py_bind (calculate_recall_heuristic context) (\<lambda>recall_score.
         py_bind (rounded_mean
                    [faithfulness_score, relevancy_score, precision_score, recall_score])
           (\<lambda>overall.
         Inr \<lparr>query = query_text,
              metrics =
                \<lparr>faithfulness = faithfulness_score, answer_relevancy = relevancy_score,
                 context_precision = precision_score, context_recall = recall_score\<rparr>,
              metadata =
                \<lparr>user_role = dict_get (userRole md) ''unknown'',
                 processing_time_ms = dict_get (processingTimeMs md) (PInt 0),
                 source_count = dict_get (sourceCount md) (PInt 0),
                 session_id = dict_get (sessionId md) [],
                 timestamp = dict_get (in_timestamp md) []\<rparr>,
              overall_score = overall\<rparr>))))))"

text \<open>
  What the external scorer and \<^verbatim>\<open>evaluate_all\<close> can hand back: a dict from names
  to numbers, strings or evaluation lists, or some object that is not a dict.
\<close>

datatype rvalue = RNum pynum | RStr string | REvals "evaluation list"

datatype ragas_value = RDict "(string \<times> rvalue) list" | RNonDict

datatype ragas_outcome = RagasRaises | RagasReturns ragas_value

record dataset =
  ds_query :: "string list"
  ds_generated_response :: "string list"
  ds_retrieved_documents :: "string list list"

text \<open>The loop of \<^verbatim>\<open>_fallback_evaluation\<close>: an exception ends it.\<close>

fun evaluate_each :: "raw_result list \<Rightarrow> evaluation list \<Rightarrow> py_error + evaluation list" where
  "evaluate_each [] acc = Inr acc"
| "evaluate_each (result # rest) acc =
     py_bind (evaluate_result_heuristic result) (\<lambda>e. evaluate_each rest (acc @ [e]))"

definition fallback_evaluation :: "evaluator \<Rightarrow> py_error + (ragas_value \<times> evaluator)" where
  "fallback_evaluation self =
     py_bind (evaluate_each (results self) [])
       (\<lambda>es. Inr (RDict [(''evaluations'', REvals es)], self\<lparr>evaluations := es\<rparr>))"

text \<open>\<^verbatim>\<open>prepare_dataset\<close>; \<^verbatim>\<open>Dataset.from_dict\<close> keeps the three columns.\<close>

definition prepare_dataset :: "bool \<Rightarrow> evaluator \<Rightarrow> dataset option" where
  "prepare_dataset ragas_available self =
     (if \<not> ragas_available then None
      else Some
        \<lparr>ds_query = map (\<lambda>r. dict_get (in_query r) []) (results self),
         ds_generated_response = map (\<lambda>r. dict_get (in_generated_response r) []) (results self),
         ds_retrieved_documents =
           map (\<lambda>r. dict_get (in_retrieved_documents r) []) (results self)\<rparr>)"

text \<open>
  \<^verbatim>\<open>evaluate_all\<close>: \<open>ragas_available\<close> is the module's \<^verbatim>\<open>RAGAS_AVAILABLE\<close>,
  \<open>evaluate\<close> the external library's batched call.
\<close>

definition evaluate_all ::
  "bool \<Rightarrow> (dataset \<Rightarrow> ragas_outcome) \<Rightarrow> evaluator \<Rightarrow> py_error + (ragas_value \<times> evaluator)" where
  "evaluate_all ragas_available evaluate self =
     (if \<not> ragas_available then fallback_evaluation self
      else case prepare_dataset ragas_available self of
             None \<Rightarrow> fallback_evaluation self
           | Some ds \<Rightarrow>
               (case evaluate ds of
                  RagasRaises \<Rightarrow> fallback_evaluation self
                | RagasReturns res \<Rightarrow> Inr (res, self)))"

section \<open>The aggregator\<close>

text \<open>
  The score lists of \<^verbatim>\<open>all_scores\<close>, and those of one role in
  \<^verbatim>\<open>metrics_by_role\<close>, which has a count as well. Dicts keep insertion order: they are
  association lists with distinct keys, and \<open>AList.update\<close> is item assignment.
\<close>

record score_lists =
  acc_faithfulness :: "pynum list"
  acc_answer_relevancy :: "pynum list"
  acc_context_precision :: "pynum list"
  acc_context_recall :: "pynum list"
  acc_overall :: "pynum list"

record role_scores = score_lists +
  acc_count :: int

definition empty_scores :: score_lists where
  "empty_scores =
     \<lparr>acc_faithfulness = [], acc_answer_relevancy = [], acc_context_precision = [],
      acc_context_recall = [], acc_overall = []\<rparr>"

definition new_role_scores :: role_scores where
  "new_role_scores =
     \<lparr>acc_faithfulness = [], acc_answer_relevancy = [], acc_context_precision = [],
      acc_context_recall = [], acc_overall = [], acc_count = 0\<rparr>"

definition append_scores :: "evaluation \<Rightarrow> 'a score_lists_scheme \<Rightarrow> 'a score_lists_scheme" where
  "append_scores eval_result s =
     s\<lparr>acc_faithfulness := acc_faithfulness s @ [faithfulness (metrics eval_result)],
       acc_answer_relevancy := acc_answer_relevancy s @ [answer_relevancy (metrics eval_result)],
       acc_context_precision :=
         acc_context_precision s @ [context_precision (metrics eval_result)],
       acc_context_recall := acc_context_recall s @ [context_recall (metrics eval_result)],
       acc_overall := acc_overall s @ [overall_score eval_result]\<rparr>"

text \<open>One pass of the loop over \<^verbatim>\<open>self.evaluations\<close>.\<close>

definition accumulate ::
  "evaluation \<Rightarrow> (string \<times> role_scores) list \<times> score_lists \<Rightarrow>
     py_error + ((string \<times> role_scores) list \<times> score_lists)" where
  "accumulate eval_result st =
     (let metrics_by_role = fst st;
          all_scores = snd st;
          role = user_role (metadata eval_result);
          by_role1 =
            (if map_of metrics_by_role role = None
             then AList.update role new_role_scores metrics_by_role else metrics_by_role)
      in case map_of by_role1 role of
           None \<Rightarrow> Inl KeyError
         | Some s \<Rightarrow>
             Inr (AList.update role
                    (append_scores eval_result (s\<lparr>acc_count := acc_count s + 1\<rparr>)) by_role1,
                  append_scores eval_result all_scores))"

fun accumulate_all ::
  "evaluation list \<Rightarrow> (string \<times> role_scores) list \<times> score_lists \<Rightarrow>
     py_error + ((string \<times> role_scores) list \<times> score_lists)" where
  "accumulate_all [] st = Inr st"
| "accumulate_all (eval_result # rest) st =
     py_bind (accumulate eval_result st) (accumulate_all rest)"

text \<open>The five rounded means of \<^verbatim>\<open>overall_metrics\<close> and of each role's entry.\<close>

record summary =
  avg_faithfulness :: pynum
  avg_answer_relevancy :: pynum
  avg_context_precision :: pynum
  avg_context_recall :: pynum
  avg_overall_score :: pynum

record role_summary = summary +
  count :: int

definition summarize :: "score_lists \<Rightarrow> py_error + summary" where
  "summarize s =
     py_bind (rounded_mean (acc_faithfulness s)) (\<lambda>f.
     py_bind (rounded_mean (acc_answer_relevancy s)) (\<lambda>r.
     py_bind (rounded_mean (acc_context_precision s)) (\<lambda>p.
     py_bind (rounded_mean (acc_context_recall s)) (\<lambda>c.
     py_bind (rounded_mean (acc_overall s)) (\<lambda>v.
     Inr \<lparr>avg_faithfulness = f, avg_answer_relevancy = r, avg_context_precision = p,
          avg_context_recall = c, avg_overall_score = v\<rparr>)))))"

definition summarize_role :: "role_scores \<Rightarrow> py_error + role_summary" where
  "summarize_role m =
     py_bind (rounded_mean (acc_faithfulness m)) (\<lambda>f.
     py_bind (rounded_mean (acc_answer_relevancy m)) (\<lambda>r.
     py_bind (rounded_mean (acc_context_precision m)) (\<lambda>p.
     py_bind (rounded_mean (acc_context_recall m)) (\<lambda>c.
     py_bind (rounded_mean (acc_overall m)) (\<lambda>v.
     Inr \<lparr>avg_faithfulness = f, avg_answer_relevancy = r, avg_context_precision = p,
          avg_context_recall = c, avg_overall_score = v, count = acc_count m\<rparr>)))))"

text \<open>The loop over \<^verbatim>\<open>metrics_by_role.items()\<close> that fills \<^verbatim>\<open>aggregate["by_role"]\<close>.\<close>

fun summarize_roles ::
  "(string \<times> role_scores) list \<Rightarrow> (string \<times> role_summary) list \<Rightarrow>
     py_error + (string \<times> role_summary) list" where
  "summarize_roles [] out = Inr out"
| "summarize_roles ((role, m) # rest) out =
     py_bind (summarize_role m) (\<lambda>entry. summarize_roles rest (AList.update role entry out))"

record aggregate =
  total_evaluations :: int
  report_timestamp :: string
  overall_metrics :: summary
  by_role :: "(string \<times> role_summary) list"

text \<open>What \<^verbatim>\<open>calculate_aggregate_metrics\<close> returns: the dict \<^verbatim>\<open>{}\<close> or a report.\<close>

datatype aggregate_result = EmptyDict | Aggregate aggregate

text \<open>
  \<^verbatim>\<open>calculate_aggregate_metrics\<close>; \<open>now\<close> is what \<^verbatim>\<open>datetime.now().isoformat()\<close>
  gives at the call.
\<close>

definition calculate_aggregate_metrics :: "string \<Rightarrow> evaluator \<Rightarrow> py_error + aggregate_result" where
  "calculate_aggregate_metrics now self =
     (if evaluations self = [] then Inr EmptyDict
      else py_bind (accumulate_all (evaluations self) ([], empty_scores)) (\<lambda>st.
           py_bind (summarize (snd st)) (\<lambda>overall.
           py_bind (summarize_roles (fst st) []) (\<lambda>roles.
           Inr (Aggregate
                  \<lparr>total_evaluations = int (length (evaluations self)),
                   report_timestamp = now,
                   overall_metrics = overall,
                   by_role = roles\<rparr>)))))"

text \<open>Subscripting the returned dict, as \<^verbatim>\<open>print_summary\<close> does.\<close>

fun get_total_evaluations :: "aggregate_result \<Rightarrow> py_error + int" where
  "get_total_evaluations EmptyDict = Inl KeyError"
| "get_total_evaluations (Aggregate a) = Inr (total_evaluations a)"

fun get_by_role :: "aggregate_result \<Rightarrow> py_error + (string \<times> role_summary) list" where
  "get_by_role EmptyDict = Inl KeyError"
| "get_by_role (Aggregate a) = Inr (by_role a)"

fun get_overall_metrics :: "aggregate_result \<Rightarrow> py_error + summary" where
  "get_overall_metrics EmptyDict = Inl KeyError"
| "get_overall_metrics (Aggregate a) = Inr (overall_metrics a)"

text \<open>
  \<^verbatim>\<open>print_summary\<close> reads \<^verbatim>\<open>aggregate['total_evaluations']\<close> first; the printed text
  is not modelled.
\<close>

definition print_summary :: "aggregate_result \<Rightarrow> py_error + unit" where
  "print_summary agg = py_bind (get_total_evaluations agg) (\<lambda>_. Inr ())"

section \<open>The external scorer's result and the pipeline\<close>

text \<open>The loop of \<^verbatim>\<open>process_ragas_results\<close> over \<^verbatim>\<open>ragas_results.items()\<close>.\<close>

fun collect_numeric ::
  "(string \<times> rvalue) list \<Rightarrow> (string \<times> pynum) list \<Rightarrow> (string \<times> pynum) list" where
  "collect_numeric [] om = om"
| "collect_numeric ((metric_name, RNum x) # rest) om =
     collect_numeric rest
       (AList.update metric_name (py_round3 (PFloat (to_double (num_val x)))) om)"
| "collect_numeric ((metric_name, v) # rest) om = collect_numeric rest om"

record processed =
  p_overall_metrics :: "(string \<times> pynum) list"
  p_by_role :: "(string \<times> role_summary) list"
  p_raw_results :: "(string \<times> rvalue) list"

datatype processed_result = ProcessedEmptyDict | Processed processed

definition process_ragas_results :: "(string \<times> rvalue) list \<Rightarrow> processed_result" where
  "process_ragas_results ragas_results =
     (if ragas_results = [] then ProcessedEmptyDict
      else Processed
             \<lparr>p_overall_metrics = collect_numeric ragas_results [],
              p_by_role = [],
              p_raw_results = ragas_results\<rparr>)"

text \<open>
  \<^verbatim>\<open>evaluator.evaluations = ragas_results["evaluations"]\<close> followed by
  \<^verbatim>\<open>calculate_aggregate_metrics()\<close>: a value that is not a list of evaluations gives
  \<^verbatim>\<open>{}\<close> when it is falsy and cannot be iterated as evaluations otherwise.
\<close>

definition aggregate_stored ::
  "string \<Rightarrow> evaluator \<Rightarrow> rvalue \<Rightarrow> py_error + (aggregate_result \<times> evaluator)" where
  "aggregate_stored now self v =
     (case v of
        REvals es \<Rightarrow>
          py_bind (calculate_aggregate_metrics now (self\<lparr>evaluations := es\<rparr>))
            (\<lambda>agg. Inr (agg, self\<lparr>evaluations := es\<rparr>))
      | RNum x \<Rightarrow> if num_val x = 0 then Inr (EmptyDict, self) else Inl TypeError
      | RStr t \<Rightarrow> if t = [] then Inr (EmptyDict, self) else Inl TypeError)"

text \<open>
  \<^verbatim>\<open>main\<close>, up to its return value and the evaluator it leaves: \<open>None\<close> is the early
  exit. The exports that follow \<^verbatim>\<open>print_summary\<close> write files and are left out.
\<close>

definition main ::
  "bool \<Rightarrow> (dataset \<Rightarrow> ragas_outcome) \<Rightarrow> string \<Rightarrow> (string \<rightharpoonup> document) \<Rightarrow>
     py_error + (aggregate_result option \<times> evaluator)" where
  "main ragas_available evaluate now fs =
     py_bind (init_evaluator fs ''rag-test-results.json'') (\<lambda>evaluator0.
     py_bind (evaluate_all ragas_available evaluate evaluator0) (\<lambda>res.
       case fst res of
         RNonDict \<Rightarrow> Inr (None, snd res)
       | RDict ragas_results \<Rightarrow>
           if ragas_results = [] then Inr (None, snd res)
           else
             py_bind
               (case map_of ragas_results ''evaluations'' of
                  Some v \<Rightarrow> aggregate_stored now (snd res) v
                | None \<Rightarrow>
                    (let discarded = process_ragas_results ragas_results
                     in py_bind (fallback_evaluation (snd res)) (\<lambda>fb.
                        py_bind (calculate_aggregate_metrics now (snd fb))
                          (\<lambda>agg. Inr (agg, snd fb)))))
               (\<lambda>fin. py_bind (print_summary (fst fin))
                         (\<lambda>_. Inr (Some (fst fin), snd fin)))))"

section \<open>Properties stated by the specification\<close>

text \<open>A score in the closed range from 0 to 1.\<close>

definition in_unit :: "pynum \<Rightarrow> bool" where
  "in_unit v = (0 \<le> num_val v \<and> num_val v \<le> 1)"


text \<open>
  A record with the documented defaults written in: the empty string for a missing query
  or response, no documents, 0 for a missing processing time or source count, and the role
  \<^verbatim>\<open>unknown\<close>.
\<close>

definition with_defaults :: "raw_result \<Rightarrow> raw_result" where
  "with_defaults r =
     \<lparr>in_query = Some (case in_query r of None \<Rightarrow> [] | Some q \<Rightarrow> q),
      in_generated_response = Some (case in_generated_response r of None \<Rightarrow> [] | Some g \<Rightarrow> g),
      in_retrieved_documents = Some (case in_retrieved_documents r of None \<Rightarrow> [] | Some d \<Rightarrow> d),
      in_metadata =
        Some (let m = (case in_metadata r of None \<Rightarrow> empty_metadata | Some m \<Rightarrow> m)
              in m\<lparr>userRole := Some (case userRole m of None \<Rightarrow> ''unknown'' | Some u \<Rightarrow> u),
                   processingTimeMs := Some (case processingTimeMs m of None \<Rightarrow> PInt 0 | Some t \<Rightarrow> t),
                   sourceCount := Some (case sourceCount m of None \<Rightarrow> PInt 0 | Some c \<Rightarrow> c)\<rparr>)\<rparr>"

text \<open>
  The distinct lowercased whitespace-delimited tokens of a string; the tokens of the
  lowercased documents joined by single spaces; the fraction of the tokens of the first set
  that occur in the second, as a float; a value capped at 1 and rounded to three decimals.
\<close>

definition tokens :: "string \<Rightarrow> string set" where
  "tokens s = set (split (lower s))"

definition context_tokens :: "string list \<Rightarrow> string set" where
  "context_tokens docs = set (split (join '' '' (map lower docs)))"

definition overlap_fraction :: "string set \<Rightarrow> string set \<Rightarrow> rat" where
  "overlap_fraction A B = to_double (of_nat (card (A \<inter> B)) / of_nat (card A))"

definition capped_rounded :: "rat \<Rightarrow> pynum" where
  "capped_rounded x = py_round3 (PFloat (min x 1))"

text \<open>The role an evaluation is grouped under, and the evaluations of one role, in order.\<close>

definition role_of :: "evaluation \<Rightarrow> string" where
  "role_of e = user_role (metadata e)"

definition group :: "string \<Rightarrow> evaluation list \<Rightarrow> evaluation list" where
  "group R es = filter (\<lambda>e. role_of e = R) es"

text \<open>
  The score lists the aggregation loop holds after a list of evaluations, overall and for the
  evaluations of one role, and the loop's invariant.
\<close>

definition scores_of :: "evaluation list \<Rightarrow> score_lists" where
  "scores_of es =
     \<lparr>acc_faithfulness = map (\<lambda>e. faithfulness (metrics e)) es,
      acc_answer_relevancy = map (\<lambda>e. answer_relevancy (metrics e)) es,
      acc_context_precision = map (\<lambda>e. context_precision (metrics e)) es,
      acc_context_recall = map (\<lambda>e. context_recall (metrics e)) es,
      acc_overall = map overall_score es\<rparr>"

definition role_scores_of :: "evaluation list \<Rightarrow> role_scores" where
  "role_scores_of es =
     \<lparr>acc_faithfulness = map (\<lambda>e. faithfulness (metrics e)) es,
      acc_answer_relevancy = map (\<lambda>e. answer_relevancy (metrics e)) es,
      acc_context_precision = map (\<lambda>e. context_precision (metrics e)) es,
      acc_context_recall = map (\<lambda>e. context_recall (metrics e)) es,
      acc_overall = map overall_score es,
      acc_count = int (length es)\<rparr>"

definition acc_inv ::
  "evaluation list \<Rightarrow> (string \<times> role_scores) list \<times> score_lists \<Rightarrow> bool" where
  "acc_inv es st =
     (distinct (map fst (fst st)) \<and> snd st = scores_of es \<and>
      (\<forall>R. map_of (fst st) R =
            (if R \<in> role_of ` set es then Some (role_scores_of (group R es)) else None)))"

section \<open>Sample inputs\<close>

text \<open>A document without \<^verbatim>\<open>results\<close>, a result object without keys, a fresh evaluator.\<close>

definition bare_document :: document where
  "bare_document = \<lparr>doc_results = None\<rparr>"

definition bare_result :: raw_result where
  "bare_result =
     \<lparr>in_query = None, in_generated_response = None, in_retrieved_documents = None,
      in_metadata = None\<rparr>"

definition fresh_evaluator :: evaluator where
  "fresh_evaluator = \<lparr>results_file = ''rag-test-results.json'', results = [], evaluations = []\<rparr>"

text \<open>One record, the file holding it, and two external scorers.\<close>

definition tiny_result :: raw_result where
  "tiny_result =
     \<lparr>in_query = Some ''a b'', in_generated_response = Some ''a'',
      in_retrieved_documents = Some [''a''], in_metadata = None\<rparr>"

definition tiny_files :: "string \<rightharpoonup> document" where
  "tiny_files = [''rag-test-results.json'' \<mapsto> \<lparr>doc_results = Some [tiny_result]\<rparr>]"

definition tiny_evaluator :: evaluator where
  "tiny_evaluator =
     \<lparr>results_file = ''rag-test-results.json'', results = [tiny_result], evaluations = []\<rparr>"

definition tiny_dataset :: dataset where
  "tiny_dataset =
     \<lparr>ds_query = [''a b''], ds_generated_response = [''a''], ds_retrieved_documents = [[''a'']]\<rparr>"

definition raising_scorer :: "dataset \<Rightarrow> ragas_outcome" where
  "raising_scorer ds = RagasRaises"

definition answering_scorer :: "dataset \<Rightarrow> ragas_outcome" where
  "answering_scorer ds = RagasReturns (RDict [(''faithfulness'', RNum (PFloat (1 / 4)))])"

text \<open>What a run reports: the report's evaluation count, its overall faithfulness, and the number of evaluations kept.\<close>

definition run_digest ::
  "py_error + (aggregate_result option \<times> evaluator) \<Rightarrow>
     py_error + ((py_error + int) option \<times> (py_error + pynum) option \<times> nat)" where
  "run_digest run =
     py_bind run (\<lambda>res.
       Inr (map_option get_total_evaluations (fst res),
            map_option
              (\<lambda>agg. py_bind (get_overall_metrics agg) (\<lambda>m. Inr (avg_faithfulness m)))
              (fst res),
            length (evaluations (snd res))))"

text \<open>Three evaluations of two roles, with the same value for every score.\<close>

definition graded :: "string \<Rightarrow> rat \<Rightarrow> evaluation" where
  "graded role x =
     \<lparr>query = ''q'',
      metrics = \<lparr>faithfulness = PFloat x, answer_relevancy = PFloat x,
                 context_precision = PFloat x, context_recall = PFloat x\<rparr>,
      metadata = \<lparr>user_role = role, processing_time_ms = PInt 0, source_count = PInt 0,
                  session_id = [], timestamp = []\<rparr>,
      overall_score = PFloat x\<rparr>"

definition scored_evaluator :: evaluator where
  "scored_evaluator =
     \<lparr>results_file = ''rag-test-results.json'', results = [],
      evaluations = [graded ''admin'' 1, graded ''user'' (1 / 2), graded ''admin'' 0]\<rparr>"

section \<open>Auxiliary facts\<close>

subsection \<open>Rounding keeps the unit range\<close>

lemma py_bind_Inr [simp]: "py_bind (Inr v) f = f v"
  by (simp add: py_bind_def)

lemma py_bind_Inl [simp]: "py_bind (Inl e) f = Inl e"
  by (simp add: py_bind_def)

lemma round_half_even_le: "x \<le> of_int m \<Longrightarrow> round_half_even x \<le> m"
proof -
  assume h: "x \<le> of_int m"
  have f: "\<lfloor>x\<rfloor> \<le> m" using h by (simp add: floor_le_iff)
  show ?thesis
  proof (cases "\<lfloor>x\<rfloor> = m")
    case True
    then have "x - of_int \<lfloor>x\<rfloor> \<le> 0" using h by simp
    then show ?thesis using True by (simp add: round_half_even_def Let_def)
  next
    case False
    then have "\<lfloor>x\<rfloor> + 1 \<le> m" using f by linarith
    then show ?thesis using f by (simp add: round_half_even_def Let_def)
  qed
qed

lemma round_half_even_ge: "of_int m \<le> x \<Longrightarrow> m \<le> round_half_even x"
proof -
  assume h: "of_int m \<le> x"
  have "m \<le> \<lfloor>x\<rfloor>" using h by (simp add: le_floor_iff)
  then show ?thesis by (simp add: round_half_even_def Let_def)
qed

lemma to_double_nonneg: "0 \<le> q \<Longrightarrow> 0 \<le> to_double q"
proof -
  assume h: "0 \<le> q"
  have "0 \<le> round_half_even (q / 2 powi k)" for k
  proof (rule round_half_even_ge)
    have "(0::rat) < 2 powi k" by (simp add: zero_less_power_int)
    then show "of_int 0 \<le> q / 2 powi k" using h by simp
  qed
  then show ?thesis
    by (simp add: to_double_def Let_def)
qed

lemma binary_exponent_le_0: "0 < q \<Longrightarrow> q \<le> 1 \<Longrightarrow> binary_exponent q \<le> 0"
proof -
  assume h: "0 < q" "q \<le> 1"
  show ?thesis
  proof (cases "1 \<le> q")
    case True
    then have "q = 1" using h by simp
    moreover have "bitlen 1 = 1" by code_simp
    ultimately show ?thesis by (simp add: binary_exponent_def)
  next
    case False
    have "0 \<le> bitlen (\<lceil>1 / q\<rceil> - 1)" by (rule bitlen_nonneg)
    then show ?thesis using False by (simp add: binary_exponent_def)
  qed
qed

lemma to_double_le_1: "0 \<le> q \<Longrightarrow> q \<le> 1 \<Longrightarrow> to_double q \<le> 1"
proof -
  assume h: "0 \<le> q" "q \<le> 1"
  show ?thesis
  proof (cases "q = 0")
    case True
    then show ?thesis by (simp add: to_double_def)
  next
    case False
    then have pos: "0 < q" using h by simp
    define k where "k = max (binary_exponent \<bar>q\<bar> - 52) (- 1074)"
    have "binary_exponent \<bar>q\<bar> \<le> 0" using binary_exponent_le_0 [of q] pos h by simp
    then have k0: "k \<le> 0" by (simp add: k_def)
    define m where "m = nat (- k)"
    have ulp: "(2::rat) powi k = 1 / 2 ^ m"
      using k0 by (simp add: power_int_def m_def field_simps)
    have "q / (2 powi k) = q * 2 ^ m" by (simp add: ulp)
    also have "\<dots> \<le> of_int (2 ^ m)" using h by simp
    finally have "round_half_even (q / (2 powi k)) \<le> 2 ^ m" by (rule round_half_even_le)
    then have "rat_of_int (round_half_even (q / (2 powi k))) \<le> of_int (2 ^ m)"
      by (rule of_int_le_iff [THEN iffD2])
    then have "rat_of_int (round_half_even (q / (2 powi k))) * (1 / 2 ^ m) \<le> 1"
      by (simp add: field_simps)
    then show ?thesis using False by (simp add: to_double_def Let_def k_def [symmetric] ulp)
  qed
qed

lemma to_double_0 [simp]: "to_double 0 = 0"
  by (simp add: to_double_def)

lemma round_half_even_0 [simp]: "round_half_even 0 = 0"
  by (simp add: round_half_even_def)

lemma py_round3_unit: "in_unit v \<Longrightarrow> in_unit (py_round3 v)"
proof (cases v)
  case (PInt i)
  assume "in_unit v"
  then show ?thesis using PInt by simp
next
  case (PFloat x)
  assume "in_unit v"
  then have x: "0 \<le> x" "x \<le> 1" using PFloat by (simp_all add: in_unit_def)
  have a: "0 \<le> round_half_even (x * 1000)"
    by (rule round_half_even_ge) (use x in simp)
  have b: "round_half_even (x * 1000) \<le> 1000"
    by (rule round_half_even_le) (use x in simp)
  have "0 \<le> rat_of_int (round_half_even (x * 1000)) / 1000"
    using a by simp
  moreover have "rat_of_int (round_half_even (x * 1000)) / 1000 \<le> 1"
    using b by simp
  ultimately show ?thesis
    using PFloat by (simp add: in_unit_def to_double_nonneg to_double_le_1)
qed

lemma py_min_unit: "0 \<le> num_val q \<Longrightarrow> in_unit (py_min q (PFloat 1))"
  by (simp add: py_min_def in_unit_def)

lemma py_truediv_nonneg:
  "0 \<le> num_val a \<Longrightarrow> 0 < num_val b \<Longrightarrow>
     \<exists>x. py_truediv a b = Inr (PFloat x) \<and> 0 \<le> x"
  by (simp add: py_truediv_def to_double_nonneg)

lemma mean_bounds:
  fixes xs :: "rat list"
  assumes "xs \<noteq> []" "\<And>x. x \<in> set xs \<Longrightarrow> a \<le> x \<and> x \<le> b"
  shows "a \<le> sum_list xs / of_nat (length xs) \<and> sum_list xs / of_nat (length xs) \<le> b"
proof -
  have lo: "a * of_nat (length xs) \<le> sum_list xs" using assms(2)
    by (induction xs) (auto simp: algebra_simps intro: add_mono)
  have hi: "sum_list xs \<le> b * of_nat (length xs)" using assms(2)
    by (induction xs) (auto simp: algebra_simps intro: add_mono)
  have n: "(0::rat) < of_nat (length xs)" using assms(1) by simp
  show ?thesis using lo hi n by (simp add: field_simps)
qed

lemma statistics_mean_unit:
  assumes "data \<noteq> []" "\<And>x. x \<in> set data \<Longrightarrow> in_unit x"
  shows "\<exists>m. statistics_mean data = Inr m \<and> in_unit m"
proof -
  define m where "m = sum_list (map num_val data) / of_nat (length data)"
  have "map num_val data \<noteq> []" using assms(1) by simp
  moreover have "\<And>x. x \<in> set (map num_val data) \<Longrightarrow> 0 \<le> x \<and> x \<le> 1"
    using assms(2) by (auto simp: in_unit_def)
  ultimately have "0 \<le> sum_list (map num_val data) / of_nat (length (map num_val data))
     \<and> sum_list (map num_val data) / of_nat (length (map num_val data)) \<le> 1"
    by (rule mean_bounds)
  then have b: "0 \<le> m" "m \<le> 1" by (simp_all add: m_def)
  show ?thesis
  proof (cases "list_all is_PInt data \<and> of_int \<lfloor>m\<rfloor> = m")
    case True
    then have "statistics_mean data = Inr (PInt \<lfloor>m\<rfloor>)"
      using assms(1) by (simp add: statistics_mean_def Let_def m_def)
    moreover have "in_unit (PInt \<lfloor>m\<rfloor>)" using True b by (simp add: in_unit_def)
    ultimately show ?thesis by blast
  next
    case False
    then have "statistics_mean data = Inr (PFloat (to_double m))"
      using assms(1) by (auto simp add: statistics_mean_def Let_def m_def)
    moreover have "in_unit (PFloat (to_double m))"
      using b by (simp add: in_unit_def to_double_nonneg to_double_le_1)
    ultimately show ?thesis by blast
  qed
qed

lemma statistics_mean_nonneg:
  assumes "data \<noteq> []" "\<And>x. x \<in> set data \<Longrightarrow> 0 \<le> num_val x"
  shows "\<exists>m. statistics_mean data = Inr m \<and> 0 \<le> num_val m"
proof -
  define m where "m = sum_list (map num_val data) / of_nat (length data)"
  have "0 \<le> sum_list (map num_val data)"
    using assms(2) by (intro sum_list_nonneg) auto
  then have b: "0 \<le> m" by (simp add: m_def)
  show ?thesis
  proof (cases "list_all is_PInt data \<and> of_int \<lfloor>m\<rfloor> = m")
    case True
    then have "statistics_mean data = Inr (PInt \<lfloor>m\<rfloor>)"
      using assms(1) by (simp add: statistics_mean_def Let_def m_def)
    moreover have "0 \<le> num_val (PInt \<lfloor>m\<rfloor>)" using True b by simp
    ultimately show ?thesis by blast
  next
    case False
    then have "statistics_mean data = Inr (PFloat (to_double m))"
      using assms(1) by (auto simp add: statistics_mean_def Let_def m_def)
    moreover have "0 \<le> num_val (PFloat (to_double m))"
      using b by (simp add: to_double_nonneg)
    ultimately show ?thesis by blast
  qed
qed

lemma score_shape:
  "0 \<le> num_val q \<Longrightarrow> in_unit (py_round3 (py_min q (PFloat 1)))"
  by (rule py_round3_unit, rule py_min_unit)

lemma guarded_score:
  "\<exists>v. py_bind
          (if 0 < tot then py_truediv (PInt (int ovl)) (PInt (int tot))
           else Inr (PInt 0))
          (\<lambda>q. Inr (py_round3 (py_min q (PFloat 1)))) = Inr v \<and> in_unit v"
proof -
  have "\<exists>q. (if 0 < tot then py_truediv (PInt (int ovl)) (PInt (int tot))
             else Inr (PInt 0)) = Inr q \<and> 0 \<le> num_val q"
    using py_truediv_nonneg [of "PInt (int ovl)" "PInt (int tot)"] by auto
  then obtain q where q:
    "(if 0 < tot then py_truediv (PInt (int ovl)) (PInt (int tot))
      else Inr (PInt 0)) = Inr q" "0 \<le> num_val q"
    by blast
  show ?thesis unfolding q(1) using score_shape [OF q(2)] by simp
qed

lemma faithfulness_unit:
  "\<exists>v. calculate_faithfulness_heuristic response context = Inr v \<and> in_unit v"
proof (cases "context = [] \<or> response = []")
  case True
  then show ?thesis by (auto simp add: calculate_faithfulness_heuristic_def in_unit_def)
next
  case False
  show ?thesis
    unfolding calculate_faithfulness_heuristic_def Let_def
    using False guarded_score by (simp only: if_False)
qed

lemma relevancy_unit:
  "\<exists>v. calculate_relevancy_heuristic q_text response = Inr v \<and> in_unit v"
proof (cases "q_text = [] \<or> response = []")
  case True
  then show ?thesis by (auto simp add: calculate_relevancy_heuristic_def in_unit_def)
next
  case False
  show ?thesis
    unfolding calculate_relevancy_heuristic_def Let_def
    using False guarded_score by (simp only: if_False)
qed

lemma precision_unit:
  "\<exists>v. calculate_precision_heuristic context = Inr v \<and> in_unit v \<and> \<not> is_PInt v"
proof (cases "context = []")
  case True
  then show ?thesis by (simp add: calculate_precision_heuristic_def in_unit_def)
next
  case False
  have "\<exists>m. statistics_mean (map (\<lambda>c. PInt (int (length c))) context) = Inr m \<and> 0 \<le> num_val m"
    by (rule statistics_mean_nonneg) (use False in auto)
  then obtain m where m: "statistics_mean (map (\<lambda>c. PInt (int (length c))) context) = Inr m"
    "0 \<le> num_val m" by blast
  obtain x where x: "py_truediv m (PInt 500) = Inr (PFloat x)" "0 \<le> x"
    using py_truediv_nonneg [of m "PInt 500"] m(2) by auto
  have eq: "calculate_precision_heuristic context = Inr (py_round3 (py_min (PFloat x) (PFloat 1)))"
    using False m(1) x(1) by (simp add: calculate_precision_heuristic_def)
  have "in_unit (py_round3 (py_min (PFloat x) (PFloat 1)))"
    by (rule score_shape) (use x in simp)
  moreover have "\<not> is_PInt (py_round3 (py_min (PFloat x) (PFloat 1)))"
    by (simp add: py_min_def)
  ultimately show ?thesis using eq by simp
qed

lemma recall_unit:
  "\<exists>v. calculate_recall_heuristic context = Inr v \<and> in_unit v"
proof (cases "context = []")
  case True
  then show ?thesis by (simp add: calculate_recall_heuristic_def in_unit_def)
next
  case False
  obtain x where x: "py_truediv (PInt (int (length context))) (PInt 10) = Inr (PFloat x)" "0 \<le> x"
    using py_truediv_nonneg [of "PInt (int (length context))" "PInt 10"] by auto
  have eq: "calculate_recall_heuristic context = Inr (py_round3 (py_min (PFloat x) (PFloat 1)))"
    using False x(1) by (simp add: calculate_recall_heuristic_def)
  have "in_unit (py_round3 (py_min (PFloat x) (PFloat 1)))"
    by (rule score_shape) (use x in simp)
  then show ?thesis using eq by simp
qed

text \<open>
  Two values of the model against the doubles Python prints: 0.1, and the quotient 1/2000,
  which as a double lies above the decimal tie and is rounded up to 0.001.
\<close>

lemma to_double_tenth: "to_double (1 / 10) = 3602879701896397 / 36028797018963968"
  by code_simp

lemma round3_binary_tie:
  "py_truediv (PInt 1) (PInt 2000) = Inr (PFloat (1152921504606847 / 2305843009213693952))
   \<and> py_round3 (PFloat (1152921504606847 / 2305843009213693952)) =
       PFloat (1152921504606847 / 1152921504606846976)
   \<and> to_double (1 / 1000) = 1152921504606847 / 1152921504606846976"
  by code_simp

subsection \<open>One record\<close>

lemma rounded_mean_four:
  assumes "in_unit a" "in_unit b" "in_unit c" "in_unit d" "\<not> is_PInt c"
  shows "rounded_mean [a, b, c, d] =
           Inr (py_round3 (PFloat (to_double ((num_val a + num_val b + num_val c + num_val d) / 4))))"
    and "in_unit (py_round3 (PFloat (to_double ((num_val a + num_val b + num_val c + num_val d) / 4))))"
proof -
  show "rounded_mean [a, b, c, d] =
           Inr (py_round3 (PFloat (to_double ((num_val a + num_val b + num_val c + num_val d) / 4))))"
    using assms(5) by (simp add: rounded_mean_def statistics_mean_def Let_def add.assoc)
  have "0 \<le> (num_val a + num_val b + num_val c + num_val d) / 4"
       "(num_val a + num_val b + num_val c + num_val d) / 4 \<le> 1"
    using assms(1-4) by (simp_all add: in_unit_def)
  then have "in_unit (PFloat (to_double ((num_val a + num_val b + num_val c + num_val d) / 4)))"
    by (simp add: in_unit_def to_double_nonneg to_double_le_1)
  then show "in_unit (py_round3 (PFloat (to_double ((num_val a + num_val b + num_val c + num_val d) / 4))))"
    by (rule py_round3_unit)
qed

lemma evaluate_result_heuristic_shape:
  "\<exists>f r p c.
     calculate_faithfulness_heuristic (dict_get (in_generated_response result) [])
        (dict_get (in_retrieved_documents result) []) = Inr f \<and> in_unit f \<and>
     calculate_relevancy_heuristic (dict_get (in_query result) [])
        (dict_get (in_generated_response result) []) = Inr r \<and> in_unit r \<and>
     calculate_precision_heuristic (dict_get (in_retrieved_documents result) []) = Inr p \<and> in_unit p \<and>
     calculate_recall_heuristic (dict_get (in_retrieved_documents result) []) = Inr c \<and> in_unit c \<and>
     evaluate_result_heuristic result =
       Inr \<lparr>query = dict_get (in_query result) [],
            metrics = \<lparr>faithfulness = f, answer_relevancy = r, context_precision = p, context_recall = c\<rparr>,
            metadata =
              \<lparr>user_role = dict_get (userRole (dict_get (in_metadata result) empty_metadata)) ''unknown'',
               processing_time_ms = dict_get (processingTimeMs (dict_get (in_metadata result) empty_metadata)) (PInt 0),
               source_count = dict_get (sourceCount (dict_get (in_metadata result) empty_metadata)) (PInt 0),
               session_id = dict_get (sessionId (dict_get (in_metadata result) empty_metadata)) [],
               timestamp = dict_get (in_timestamp (dict_get (in_metadata result) empty_metadata)) []\<rparr>,
            overall_score = py_round3 (PFloat (to_double ((num_val f + num_val r + num_val p + num_val c) / 4)))\<rparr>"
proof -
  obtain f where f: "calculate_faithfulness_heuristic (dict_get (in_generated_response result) [])
        (dict_get (in_retrieved_documents result) []) = Inr f" "in_unit f"
    using faithfulness_unit by blast
  obtain r where r: "calculate_relevancy_heuristic (dict_get (in_query result) [])
        (dict_get (in_generated_response result) []) = Inr r" "in_unit r"
    using relevancy_unit by blast
  obtain p where p: "calculate_precision_heuristic (dict_get (in_retrieved_documents result) []) = Inr p"
    "in_unit p" "\<not> is_PInt p"
    using precision_unit by blast
  obtain c where c: "calculate_recall_heuristic (dict_get (in_retrieved_documents result) []) = Inr c"
    "in_unit c"
    using recall_unit by blast
  have "evaluate_result_heuristic result =
       Inr \<lparr>query = dict_get (in_query result) [],
            metrics = \<lparr>faithfulness = f, answer_relevancy = r, context_precision = p, context_recall = c\<rparr>,
            metadata =
              \<lparr>user_role = dict_get (userRole (dict_get (in_metadata result) empty_metadata)) ''unknown'',
               processing_time_ms = dict_get (processingTimeMs (dict_get (in_metadata result) empty_metadata)) (PInt 0),
               source_count = dict_get (sourceCount (dict_get (in_metadata result) empty_metadata)) (PInt 0),
               session_id = dict_get (sessionId (dict_get (in_metadata result) empty_metadata)) [],
               timestamp = dict_get (in_timestamp (dict_get (in_metadata result) empty_metadata)) []\<rparr>,
            overall_score = py_round3 (PFloat (to_double ((num_val f + num_val r + num_val p + num_val c) / 4)))\<rparr>"
    unfolding evaluate_result_heuristic_def Let_def
    by (simp only: f(1) r(1) p(1) c(1) py_bind_Inr rounded_mean_four(1) [OF f(2) r(2) p(2) c(2) p(3)])
  then show ?thesis using f r p c by blast
qed

subsection \<open>Whitespace\<close>

lemma isspace_lower_char: "isspace c \<Longrightarrow> lower_char c = c"
  by (auto simp add: isspace_def lower_char_def Let_def)

lemma split_from_whitespace: "list_all isspace s \<Longrightarrow> split_from [] s = []"
  by (induction s) simp_all

lemma lower_whitespace: "list_all isspace s \<Longrightarrow> lower s = s"
  by (induction s) (simp_all add: lower_def isspace_lower_char)

lemma split_lower_whitespace: "list_all isspace s \<Longrightarrow> split (lower s) = []"
  by (simp add: lower_whitespace split_def split_from_whitespace)

lemma py_round3_zero: "num_val v = 0 \<Longrightarrow> num_val (py_round3 v) = 0"
  by (cases v) simp_all

lemma faithfulness_whitespace:
  assumes "list_all isspace response"
  shows "\<exists>v. calculate_faithfulness_heuristic response context = Inr v \<and> num_val v = 0"
proof (cases "context = [] \<or> response = []")
  case True
  then show ?thesis by (auto simp add: calculate_faithfulness_heuristic_def)
next
  case False
  then show ?thesis
    using split_lower_whitespace [OF assms]
    by (simp add: calculate_faithfulness_heuristic_def py_min_def)
qed

lemma relevancy_whitespace_query:
  assumes "list_all isspace q"
  shows "\<exists>v. calculate_relevancy_heuristic q response = Inr v \<and> num_val v = 0"
proof (cases "q = [] \<or> response = []")
  case True
  then show ?thesis by (auto simp add: calculate_relevancy_heuristic_def)
next
  case False
  then show ?thesis
    using split_lower_whitespace [OF assms]
    by (simp add: calculate_relevancy_heuristic_def py_min_def)
qed

lemma isspace_space: "isspace CHR '' ''"
  by code_simp

subsection \<open>The fallback loop and the pipeline\<close>

lemma evaluate_each_total:
  "\<exists>es. evaluate_each rs acc = Inr (acc @ es) \<and> length es = length rs"
proof (induction rs arbitrary: acc)
  case Nil
  then show ?case by simp
next
  case (Cons r rs)
  obtain e where e: "evaluate_result_heuristic r = Inr e"
    using evaluate_result_heuristic_shape [of r] by blast
  obtain es where es: "evaluate_each rs (acc @ [e]) = Inr ((acc @ [e]) @ es)" "length es = length rs"
    using Cons.IH [of "acc @ [e]"] by blast
  have "evaluate_each (r # rs) acc = Inr (acc @ (e # es))" using e es(1) by simp
  moreover have "length (e # es) = length (r # rs)" using es(2) by simp
  ultimately show ?case by blast
qed

lemma evaluate_with_defaults:
  "evaluate_result_heuristic (with_defaults r) = evaluate_result_heuristic r"
  by (simp add: evaluate_result_heuristic_def with_defaults_def dict_get_def Let_def empty_metadata_def
        split: option.splits)

lemma tiny_init: "init_evaluator tiny_files ''rag-test-results.json'' = Inr tiny_evaluator"
  by (simp add: init_evaluator_def load_results_def tiny_files_def dict_get_def tiny_evaluator_def)

lemma tiny_prepare: "prepare_dataset True tiny_evaluator = Some tiny_dataset"
  by (simp add: prepare_dataset_def tiny_evaluator_def tiny_result_def dict_get_def tiny_dataset_def)

lemma tiny_run:
  "run_digest (main False answering_scorer ''2024-01-01T00:00:00'' tiny_files) =
     Inr (Some (Inr 1), Some (Inr (PFloat 1)), 1)"
  by code_simp

lemma main_ignores_external:
  assumes "init_evaluator fs ''rag-test-results.json'' = Inr self"
    and "prepare_dataset True self = Some ds"
    and "evaluate ds = RagasReturns (RDict d)"
    and "d \<noteq> []"
    and "map_of d ''evaluations'' = None"
  shows "main True evaluate now fs = main False evaluate' now fs"
proof (cases "fallback_evaluation self")
  case (Inl e)
  then show ?thesis using assms by (simp add: main_def evaluate_all_def)
next
  case (Inr fb)
  then obtain es where fb: "fb = (RDict [(''evaluations'', REvals es)], self\<lparr>evaluations := es\<rparr>)"
    by (auto simp add: fallback_evaluation_def py_bind_def split: sum.splits)
  show ?thesis
    using assms Inr by (simp add: main_def evaluate_all_def fb aggregate_stored_def)
qed

subsection \<open>Tokens\<close>

lemma lower_char_space: "lower_char CHR '' '' = CHR '' ''"
  by code_simp

lemma lower_join: "lower (join '' '' ds) = join '' '' (map lower ds)"
  by (induction "'' ''" ds rule: join.induct) (simp_all add: lower_def lower_char_space)

lemma split_from_append_space:
  "isspace c \<Longrightarrow> split_from cur (s @ c # t) = split_from cur s @ split_from [] t"
  by (induction s arbitrary: cur) simp_all

lemma split_join: "split (join '' '' ds) = concat (map split ds)"
proof (induction "'' ''" ds rule: join.induct)
  case 1
  then show ?case by (simp add: split_def)
next
  case (2 x)
  then show ?case by simp
next
  case (3 x y ys)
  have "split (x @ CHR '' '' # join '' '' (y # ys)) = split x @ split (join '' '' (y # ys))"
    unfolding split_def by (rule split_from_append_space) (rule isspace_space)
  then show ?case using 3 by simp
qed

lemma context_tokens_union: "context_tokens docs = (\<Union>d\<in>set docs. tokens d)"
  by (simp add: context_tokens_def tokens_def split_join)

lemma overlap_score:
  assumes "0 < card A"
  shows "py_bind
           (if 0 < card A then py_truediv (PInt (int (card (A \<inter> B)))) (PInt (int (card A)))
            else Inr (PInt 0))
           (\<lambda>q. Inr (py_round3 (py_min q (PFloat 1)))) =
         Inr (capped_rounded (overlap_fraction A B))"
proof -
  have "py_min (PFloat x) (PFloat 1) = PFloat (min x 1)" for x
    by (simp add: py_min_def min_def)
  then show ?thesis
    using assms by (simp add: py_truediv_def capped_rounded_def overlap_fraction_def)
qed

subsection \<open>The aggregation loop\<close>

lemma append_scores_all: "append_scores e (scores_of es) = scores_of (es @ [e])"
  by (simp add: append_scores_def scores_of_def)

lemma append_scores_role:
  "append_scores e ((role_scores_of es)\<lparr>acc_count := acc_count (role_scores_of es) + 1\<rparr>) =
     role_scores_of (es @ [e])"
  by (simp add: append_scores_def role_scores_of_def)

lemma append_scores_new:
  "append_scores e (new_role_scores\<lparr>acc_count := acc_count new_role_scores + 1\<rparr>) =
     role_scores_of [e]"
  by (simp add: append_scores_def role_scores_of_def new_role_scores_def)

lemma group_snoc:
  "group R (es @ [e]) = (if role_of e = R then group R es @ [e] else group R es)"
  by (simp add: group_def)

lemma group_new: "R \<notin> role_of ` set es \<Longrightarrow> group R es = []"
  by (auto simp add: group_def filter_empty_conv)

lemma acc_inv_init: "acc_inv [] ([], empty_scores)"
  by (simp add: acc_inv_def scores_of_def empty_scores_def)

lemma accumulate_step:
  assumes "acc_inv es st"
  shows "\<exists>st'. accumulate e st = Inr st' \<and> acc_inv (es @ [e]) st'"
proof -
  obtain mbr sc where st: "st = (mbr, sc)" by (cases st)
  have d: "distinct (map fst mbr)" and sc: "sc = scores_of es"
    and m: "\<And>R. map_of mbr R =
            (if R \<in> role_of ` set es then Some (role_scores_of (group R es)) else None)"
    using assms by (simp_all add: acc_inv_def st)
  show ?thesis
  proof (cases "role_of e \<in> role_of ` set es")
    case True
    then have look: "map_of mbr (role_of e) = Some (role_scores_of (group (role_of e) es))"
      using m by simp
    define mbr' where
      "mbr' = AList.update (role_of e) (role_scores_of (group (role_of e) es @ [e])) mbr"
    have step: "accumulate e st = Inr (mbr', scores_of (es @ [e]))"
      using look
      by (simp add: accumulate_def st Let_def role_of_def [symmetric] append_scores_role
          append_scores_all sc mbr'_def)
    have "distinct (map fst mbr')" using d by (simp add: mbr'_def distinct_update)
    moreover have "map_of mbr' R =
        (if R \<in> role_of ` set (es @ [e]) then Some (role_scores_of (group R (es @ [e]))) else None)"
      for R
      using True by (auto simp add: mbr'_def update_conv' m group_snoc)
    ultimately have "acc_inv (es @ [e]) (mbr', scores_of (es @ [e]))"
      by (simp add: acc_inv_def)
    then show ?thesis using step by blast
  next
    case False
    then have look: "map_of mbr (role_of e) = None" using m by simp
    define mbr' where
      "mbr' = AList.update (role_of e) (role_scores_of [e])
                (AList.update (role_of e) new_role_scores mbr)"
    have step: "accumulate e st = Inr (mbr', scores_of (es @ [e]))"
      using look
      by (simp add: accumulate_def st Let_def role_of_def [symmetric] update_conv'
          append_scores_new append_scores_all sc mbr'_def)
    have "distinct (map fst mbr')" using d by (simp add: mbr'_def distinct_update)
    moreover have "map_of mbr' R =
        (if R \<in> role_of ` set (es @ [e]) then Some (role_scores_of (group R (es @ [e]))) else None)"
      for R
      using False by (auto simp add: mbr'_def update_conv' m group_snoc group_new)
    ultimately have "acc_inv (es @ [e]) (mbr', scores_of (es @ [e]))"
      by (simp add: acc_inv_def)
    then show ?thesis using step by blast
  qed
qed

lemma accumulate_all_inv:
  "acc_inv es st \<Longrightarrow> \<exists>st'. accumulate_all rest st = Inr st' \<and> acc_inv (es @ rest) st'"
proof (induction rest arbitrary: es st)
  case Nil
  then show ?case by simp
next
  case (Cons e rest)
  obtain st1 where s1: "accumulate e st = Inr st1" "acc_inv (es @ [e]) st1"
    using accumulate_step [OF Cons.prems] by blast
  obtain st2 where s2: "accumulate_all rest st1 = Inr st2" "acc_inv ((es @ [e]) @ rest) st2"
    using Cons.IH [OF s1(2)] by blast
  show ?case using s1(1) s2 by simp
qed

lemma rounded_mean_total: "data \<noteq> [] \<Longrightarrow> \<exists>m. rounded_mean data = Inr m"
  by (simp add: rounded_mean_def statistics_mean_def Let_def)

lemma summarize_scores_of:
  assumes "es \<noteq> []"
  shows "\<exists>s. summarize (scores_of es) = Inr s
     \<and> rounded_mean (map (\<lambda>e. faithfulness (metrics e)) es) = Inr (avg_faithfulness s)
     \<and> rounded_mean (map (\<lambda>e. answer_relevancy (metrics e)) es) = Inr (avg_answer_relevancy s)
     \<and> rounded_mean (map (\<lambda>e. context_precision (metrics e)) es) = Inr (avg_context_precision s)
     \<and> rounded_mean (map (\<lambda>e. context_recall (metrics e)) es) = Inr (avg_context_recall s)
     \<and> rounded_mean (map overall_score es) = Inr (avg_overall_score s)"
proof -
  obtain f where f: "rounded_mean (map (\<lambda>e. faithfulness (metrics e)) es) = Inr f"
    using rounded_mean_total [of "map (\<lambda>e. faithfulness (metrics e)) es"] assms by auto
  obtain r where r: "rounded_mean (map (\<lambda>e. answer_relevancy (metrics e)) es) = Inr r"
    using rounded_mean_total [of "map (\<lambda>e. answer_relevancy (metrics e)) es"] assms by auto
  obtain p where p: "rounded_mean (map (\<lambda>e. context_precision (metrics e)) es) = Inr p"
    using rounded_mean_total [of "map (\<lambda>e. context_precision (metrics e)) es"] assms by auto
  obtain c where c: "rounded_mean (map (\<lambda>e. context_recall (metrics e)) es) = Inr c"
    using rounded_mean_total [of "map (\<lambda>e. context_recall (metrics e)) es"] assms by auto
  obtain v where v: "rounded_mean (map overall_score es) = Inr v"
    using rounded_mean_total [of "map overall_score es"] assms by auto
  show ?thesis by (simp add: summarize_def scores_of_def f r p c v)
qed

lemma summarize_role_scores_of:
  assumes "es \<noteq> []"
  shows "\<exists>s. summarize_role (role_scores_of es) = Inr s
     \<and> count s = int (length es)
     \<and> rounded_mean (map (\<lambda>e. faithfulness (metrics e)) es) = Inr (avg_faithfulness s)
     \<and> rounded_mean (map (\<lambda>e. answer_relevancy (metrics e)) es) = Inr (avg_answer_relevancy s)
     \<and> rounded_mean (map (\<lambda>e. context_precision (metrics e)) es) = Inr (avg_context_precision s)
     \<and> rounded_mean (map (\<lambda>e. context_recall (metrics e)) es) = Inr (avg_context_recall s)
     \<and> rounded_mean (map overall_score es) = Inr (avg_overall_score s)"
proof -
  obtain f where f: "rounded_mean (map (\<lambda>e. faithfulness (metrics e)) es) = Inr f"
    using rounded_mean_total [of "map (\<lambda>e. faithfulness (metrics e)) es"] assms by auto
  obtain r where r: "rounded_mean (map (\<lambda>e. answer_relevancy (metrics e)) es) = Inr r"
    using rounded_mean_total [of "map (\<lambda>e. answer_relevancy (metrics e)) es"] assms by auto
  obtain p where p: "rounded_mean (map (\<lambda>e. context_precision (metrics e)) es) = Inr p"
    using rounded_mean_total [of "map (\<lambda>e. context_precision (metrics e)) es"] assms by auto
  obtain c where c: "rounded_mean (map (\<lambda>e. context_recall (metrics e)) es) = Inr c"
    using rounded_mean_total [of "map (\<lambda>e. context_recall (metrics e)) es"] assms by auto
  obtain v where v: "rounded_mean (map overall_score es) = Inr v"
    using rounded_mean_total [of "map overall_score es"] assms by auto
  show ?thesis by (simp add: summarize_role_def role_scores_of_def f r p c v)
qed

lemma group_nonempty: "R \<in> role_of ` set es \<Longrightarrow> group R es \<noteq> []"
  by (auto simp add: group_def filter_empty_conv)

lemma summarize_roles_map:
  assumes "distinct (map fst mbr)"
    and "\<And>R m. (R, m) \<in> set mbr \<Longrightarrow> \<exists>s. summarize_role m = Inr s"
    and "fst ` set mbr \<inter> fst ` set start = {}"
    and "distinct (map fst start)"
  shows "\<exists>out. summarize_roles mbr start = Inr out \<and> distinct (map fst out)
     \<and> (\<forall>R. map_of out R =
              (case map_of mbr R of
                 Some m \<Rightarrow> (case summarize_role m of Inr s \<Rightarrow> Some s | Inl err \<Rightarrow> None)
               | None \<Rightarrow> map_of start R))"
  using assms
proof (induction mbr arbitrary: start)
  case Nil
  then show ?case by simp
next
  case (Cons a mbr)
  obtain R m where a: "a = (R, m)" by (cases a)
  obtain s where s: "summarize_role m = Inr s" using Cons.prems(2) [of R m] a by auto
  have fresh: "R \<notin> fst ` set mbr" using Cons.prems(1) a by auto
  have ih: "\<exists>out. summarize_roles mbr (AList.update R s start) = Inr out \<and> distinct (map fst out)
     \<and> (\<forall>R'. map_of out R' =
              (case map_of mbr R' of
                 Some m \<Rightarrow> (case summarize_role m of Inr s \<Rightarrow> Some s | Inl err \<Rightarrow> None)
               | None \<Rightarrow> map_of (AList.update R s start) R'))"
  proof (rule Cons.IH)
    show "distinct (map fst mbr)" using Cons.prems(1) by simp
    show "\<exists>s. summarize_role m' = Inr s" if "(R', m') \<in> set mbr" for R' m'
      using that Cons.prems(2) [of R' m'] by auto
    show "fst ` set mbr \<inter> fst ` set (AList.update R s start) = {}"
      using Cons.prems(3) fresh by (auto simp add: dom_update a)
    show "distinct (map fst (AList.update R s start))"
      using Cons.prems(4) by (simp add: distinct_update)
  qed
  then obtain out where out: "summarize_roles mbr (AList.update R s start) = Inr out"
    "distinct (map fst out)"
    "\<And>R'. map_of out R' =
              (case map_of mbr R' of
                 Some m \<Rightarrow> (case summarize_role m of Inr s \<Rightarrow> Some s | Inl err \<Rightarrow> None)
               | None \<Rightarrow> map_of (AList.update R s start) R')"
    by blast
  have none: "map_of mbr R = None" using fresh by (simp add: map_of_eq_None_iff)
  have "map_of out R' =
              (case map_of (a # mbr) R' of
                 Some m \<Rightarrow> (case summarize_role m of Inr s \<Rightarrow> Some s | Inl err \<Rightarrow> None)
               | None \<Rightarrow> map_of start R')" for R'
    using out(3) [of R'] none s
    by (cases "R' = R") (simp_all add: a update_conv' split: option.splits)
  moreover have "summarize_roles (a # mbr) start = Inr out" using out(1) s by (simp add: a)
  ultimately show ?case using out(2) by blast
qed

lemma aggregate_shape:
  assumes "evaluations self \<noteq> []"
  shows "\<exists>rep s. calculate_aggregate_metrics now self = Inr (Aggregate rep)
     \<and> total_evaluations rep = int (length (evaluations self))
     \<and> report_timestamp rep = now
     \<and> summarize (scores_of (evaluations self)) = Inr s \<and> overall_metrics rep = s
     \<and> distinct (map fst (by_role rep))
     \<and> (\<forall>R. map_of (by_role rep) R =
              (if R \<in> role_of ` set (evaluations self)
               then (case summarize_role (role_scores_of (group R (evaluations self))) of
                       Inr s \<Rightarrow> Some s | Inl err \<Rightarrow> None)
               else None))"
proof -
  define es where "es = evaluations self"
  have ne: "es \<noteq> []" using assms by (simp add: es_def)
  obtain st where st: "accumulate_all es ([], empty_scores) = Inr st" "acc_inv ([] @ es) st"
    using accumulate_all_inv [OF acc_inv_init] by blast
  obtain mbr sc where p: "st = (mbr, sc)" by (cases st)
  have d: "distinct (map fst mbr)" and sc: "sc = scores_of es"
    and m: "\<And>R. map_of mbr R =
            (if R \<in> role_of ` set es then Some (role_scores_of (group R es)) else None)"
    using st(2) by (simp_all add: acc_inv_def p)
  obtain s where s: "summarize (scores_of es) = Inr s"
    using summarize_scores_of [OF ne] by blast
  have ok: "\<exists>s. summarize_role m' = Inr s" if "(R, m') \<in> set mbr" for R m'
  proof -
    have "map_of mbr R = Some m'" using that d by simp
    then have "R \<in> role_of ` set es" "m' = role_scores_of (group R es)"
      using m [of R] by (auto split: if_splits)
    then show ?thesis using summarize_role_scores_of [OF group_nonempty] by blast
  qed
  have "\<exists>out. summarize_roles mbr [] = Inr out \<and> distinct (map fst out)
     \<and> (\<forall>R. map_of out R =
              (case map_of mbr R of
                 Some m \<Rightarrow> (case summarize_role m of Inr s \<Rightarrow> Some s | Inl err \<Rightarrow> None)
               | None \<Rightarrow> map_of [] R))"
  proof (rule summarize_roles_map)
    show "distinct (map fst mbr)" by fact
    show "\<exists>s. summarize_role m' = Inr s" if "(R, m') \<in> set mbr" for R m'
      using ok that by blast
    show "fst ` set mbr \<inter> fst ` set [] = {}" by simp
    show "distinct (map fst [])" by simp
  qed
  then obtain out where out: "summarize_roles mbr [] = Inr out" "distinct (map fst out)"
    "\<And>R. map_of out R =
              (case map_of mbr R of
                 Some m \<Rightarrow> (case summarize_role m of Inr s \<Rightarrow> Some s | Inl err \<Rightarrow> None)
               | None \<Rightarrow> map_of [] R)"
    by blast
  have look: "map_of out R =
              (if R \<in> role_of ` set es
               then (case summarize_role (role_scores_of (group R es)) of
                       Inr s \<Rightarrow> Some s | Inl err \<Rightarrow> None)
               else None)" for R
    using out(3) [of R] m [of R] by simp
  have "calculate_aggregate_metrics now self =
      Inr (Aggregate \<lparr>total_evaluations = int (length es), report_timestamp = now,
                      overall_metrics = s, by_role = out\<rparr>)"
    using ne st(1) s out(1) by (simp add: calculate_aggregate_metrics_def es_def [symmetric] p sc)
  then show ?thesis using s out(2) look by (simp add: es_def)
qed

lemma indicator_sum:
  "distinct ks \<Longrightarrow> x \<in> set ks \<Longrightarrow> sum_list (map (\<lambda>R. if x = R then 1 else 0) ks) = (1::int)"
proof (induction ks)
  case Nil
  then show ?case by simp
next
  case (Cons k ks)
  show ?case
  proof (cases "x = k")
    case True
    then have "x \<notin> set ks" using Cons.prems(1) by simp
    then have "sum_list (map (\<lambda>R. if x = R then 1 else 0) ks) = (0::int)"
      by (induction ks) auto
    then show ?thesis using True by simp
  next
    case False
    then show ?thesis using Cons by simp
  qed
qed

lemma sum_group_sizes:
  "distinct ks \<Longrightarrow> role_of ` set es \<subseteq> set ks \<Longrightarrow>
     sum_list (map (\<lambda>R. int (length (group R es))) ks) = int (length es)"
proof (induction es)
  case Nil
  then show ?case by (simp add: group_def)
next
  case (Cons e es)
  have split: "int (length (group R (e # es))) =
      (if role_of e = R then 1 else 0) + int (length (group R es))" for R
    by (simp add: group_def)
  have "sum_list (map (\<lambda>R. int (length (group R (e # es)))) ks) =
      sum_list (map (\<lambda>R. if role_of e = R then 1 else 0) ks)
      + sum_list (map (\<lambda>R. int (length (group R es))) ks)"
    by (simp only: split sum_list_addf)
  also have "\<dots> = 1 + int (length es)"
    using Cons indicator_sum [of ks "role_of e"] by simp
  finally show ?case by simp
qed

lemma scored_run:
  "calculate_aggregate_metrics ''2024-01-01T00:00:00'' scored_evaluator =
     Inr (Aggregate
       \<lparr>total_evaluations = 3, report_timestamp = ''2024-01-01T00:00:00'',
        overall_metrics =
          \<lparr>avg_faithfulness = PFloat (1 / 2), avg_answer_relevancy = PFloat (1 / 2),
           avg_context_precision = PFloat (1 / 2), avg_context_recall = PFloat (1 / 2),
           avg_overall_score = PFloat (1 / 2)\<rparr>,
        by_role =
          [(''admin'',
            \<lparr>avg_faithfulness = PFloat (1 / 2), avg_answer_relevancy = PFloat (1 / 2),
             avg_context_precision = PFloat (1 / 2), avg_context_recall = PFloat (1 / 2),
             avg_overall_score = PFloat (1 / 2), count = 2\<rparr>),
           (''user'',
            \<lparr>avg_faithfulness = PFloat (1 / 2), avg_answer_relevancy = PFloat (1 / 2),
             avg_context_precision = PFloat (1 / 2), avg_context_recall = PFloat (1 / 2),
             avg_overall_score = PFloat (1 / 2), count = 1\<rparr>)]\<rparr>)"
  by code_simp


lemma scored_nonempty: "evaluations scored_evaluator \<noteq> []"
  by (simp add: scored_evaluator_def)

lemma scored_roles: "role_of ` set (evaluations scored_evaluator) = {''admin'', ''user''}"
  by (auto simp add: scored_evaluator_def graded_def role_of_def)

lemma scored_admin:
  "group ''admin'' (evaluations scored_evaluator) = [graded ''admin'' 1, graded ''admin'' 0]"
  by (simp add: scored_evaluator_def graded_def role_of_def group_def)

section \<open>The claims\<close>

text \<open>
  Claim C1, as amended. With no evaluations the aggregation step does not fail and returns
  the empty dict \<^verbatim>\<open>{}\<close>: it is not a report, and subscripting it with
  \<^verbatim>\<open>total_evaluations\<close> or \<^verbatim>\<open>by_role\<close> raises \<^verbatim>\<open>KeyError\<close>.
\<close>

theorem aggregate_of_no_evaluations:
  "evaluations self = [] \<Longrightarrow>
     calculate_aggregate_metrics now self = Inr EmptyDict
     \<and> py_bind (calculate_aggregate_metrics now self) get_total_evaluations = Inl KeyError
     \<and> py_bind (calculate_aggregate_metrics now self) get_by_role = Inl KeyError"
  by (simp add: calculate_aggregate_metrics_def)


text \<open>The amended claim at a concrete evaluator without evaluations.\<close>

theorem aggregate_of_no_evaluations_witness:
  "calculate_aggregate_metrics ''2024-01-01T00:00:00''
     \<lparr>results_file = ''rag-test-results.json'', results = [], evaluations = []\<rparr> = Inr EmptyDict"
  using aggregate_of_no_evaluations
    [of "\<lparr>results_file = ''rag-test-results.json'', results = [], evaluations = []\<rparr>"
        "''2024-01-01T00:00:00''"]
  by simp


text \<open>
  Claim C1 as stated fails: for no evaluations the result has no
  \<^verbatim>\<open>total_evaluations\<close> equal to 0 and no empty \<^verbatim>\<open>by_role\<close>.
\<close>

theorem zero_valued_report_counterexample:
  "py_bind (calculate_aggregate_metrics ''2024-01-01T00:00:00''
       \<lparr>results_file = ''rag-test-results.json'', results = [], evaluations = []\<rparr>)
     get_total_evaluations \<noteq> Inr 0
   \<and> py_bind (calculate_aggregate_metrics ''2024-01-01T00:00:00''
       \<lparr>results_file = ''rag-test-results.json'', results = [], evaluations = []\<rparr>)
     get_by_role \<noteq> Inr []"
  by (simp add: calculate_aggregate_metrics_def)

text \<open>
  Claim C5. For every record the heuristic scorer returns an evaluation; each of its four
  metric scores lies between 0 and 1; its overall score is the mean of the four (their exact
  sum over 4, as a float) rounded to three decimals, and lies between 0 and 1 as well.
\<close>

theorem heuristic_scores_in_unit_range:
  "\<exists>e. evaluate_result_heuristic r = Inr e
     \<and> in_unit (faithfulness (metrics e)) \<and> in_unit (answer_relevancy (metrics e))
     \<and> in_unit (context_precision (metrics e)) \<and> in_unit (context_recall (metrics e))
     \<and> overall_score e =
         py_round3 (PFloat (to_double
           ((num_val (faithfulness (metrics e)) + num_val (answer_relevancy (metrics e))
             + num_val (context_precision (metrics e)) + num_val (context_recall (metrics e))) / 4)))
     \<and> in_unit (overall_score e)"
proof -
  obtain f a p c where h:
    "in_unit f" "in_unit a" "in_unit p" "in_unit c"
    "evaluate_result_heuristic r =
       Inr \<lparr>query = dict_get (in_query r) [],
            metrics = \<lparr>faithfulness = f, answer_relevancy = a, context_precision = p, context_recall = c\<rparr>,
            metadata =
              \<lparr>user_role = dict_get (userRole (dict_get (in_metadata r) empty_metadata)) ''unknown'',
               processing_time_ms = dict_get (processingTimeMs (dict_get (in_metadata r) empty_metadata)) (PInt 0),
               source_count = dict_get (sourceCount (dict_get (in_metadata r) empty_metadata)) (PInt 0),
               session_id = dict_get (sessionId (dict_get (in_metadata r) empty_metadata)) [],
               timestamp = dict_get (in_timestamp (dict_get (in_metadata r) empty_metadata)) []\<rparr>,
            overall_score = py_round3 (PFloat (to_double ((num_val f + num_val a + num_val p + num_val c) / 4)))\<rparr>"
    using evaluate_result_heuristic_shape [of r] by blast
  have "0 \<le> (num_val f + num_val a + num_val p + num_val c) / 4"
       "(num_val f + num_val a + num_val p + num_val c) / 4 \<le> 1"
    using h(1-4) by (simp_all add: in_unit_def)
  then have "in_unit (PFloat (to_double ((num_val f + num_val a + num_val p + num_val c) / 4)))"
    by (simp add: in_unit_def to_double_nonneg to_double_le_1)
  then have "in_unit (py_round3 (PFloat (to_double ((num_val f + num_val a + num_val p + num_val c) / 4))))"
    by (rule py_round3_unit)
  then show ?thesis using h by simp
qed

text \<open>
  Claim C10. Both overlap scores are returned for all strings, never an error. For a response
  that is not empty and consists of whitespace only, the faithfulness score is the number 0;
  for such a query, the relevancy score is the number 0. (Where the guard of the division
  applies, Python's value is the int \<^verbatim>\<open>0\<close>, which equals \<^verbatim>\<open>0.0\<close>.)
\<close>

theorem whitespace_only_never_divides_by_zero:
  "(\<exists>v. calculate_faithfulness_heuristic response context = Inr v)
   \<and> (\<exists>v. calculate_relevancy_heuristic q response = Inr v)
   \<and> (response \<noteq> [] \<and> list_all isspace response \<longrightarrow>
        (\<exists>v. calculate_faithfulness_heuristic response context = Inr v \<and> num_val v = 0))
   \<and> (q \<noteq> [] \<and> list_all isspace q \<longrightarrow>
        (\<exists>v. calculate_relevancy_heuristic q response = Inr v \<and> num_val v = 0))"
  using faithfulness_unit [of response "context"] relevancy_unit [of q response]
    faithfulness_whitespace [of response "context"] relevancy_whitespace_query [of q response]
  by blast

text \<open>Claim C10 at a response and a query of two spaces.\<close>

theorem whitespace_only_never_divides_by_zero_witness:
  "calculate_faithfulness_heuristic ''  '' [''a b''] = Inr (PInt 0)
   \<and> calculate_relevancy_heuristic ''  '' ''  '' = Inr (PInt 0)
   \<and> (\<exists>v. calculate_faithfulness_heuristic ''  '' [''a b''] = Inr v \<and> num_val v = 0)
   \<and> (\<exists>v. calculate_relevancy_heuristic ''  '' ''  '' = Inr v \<and> num_val v = 0)"
proof -
  have ws: "''  '' \<noteq> [] \<and> list_all isspace ''  ''" by (simp add: isspace_space)
  have f: "calculate_faithfulness_heuristic ''  '' [''a b''] = Inr (PInt 0)" by code_simp
  have r: "calculate_relevancy_heuristic ''  '' ''  '' = Inr (PInt 0)" by code_simp
  show ?thesis
    using whitespace_only_never_divides_by_zero [of "''  ''" "[''a b'']" "''  ''"] ws f r
    by blast
qed

text \<open>
  Claim C9. A document without \<^verbatim>\<open>results\<close> loads as no records, without error. The
  fallback loop returns one evaluation per record, without error. Scoring a record returns
  an evaluation, the same one as for the record with the defaults written in; its query,
  role, processing time and source count are the record's or, where missing, the empty
  string, \<^verbatim>\<open>unknown\<close>, 0 and 0.
\<close>

theorem missing_fields_default:
  "(fs (results_file self) = Some data \<and> doc_results data = None \<longrightarrow>
      load_results fs self = Inr (self\<lparr>results := []\<rparr>))
   \<and> (\<exists>es. fallback_evaluation self =
              Inr (RDict [(''evaluations'', REvals es)], self\<lparr>evaluations := es\<rparr>)
            \<and> length es = length (results self))
   \<and> (\<exists>e. evaluate_result_heuristic r = Inr e
          \<and> evaluate_result_heuristic (with_defaults r) = Inr e
          \<and> query e = (case in_query r of None \<Rightarrow> [] | Some q \<Rightarrow> q)
          \<and> user_role (metadata e) =
              (case in_metadata r of None \<Rightarrow> ''unknown''
               | Some m \<Rightarrow> (case userRole m of None \<Rightarrow> ''unknown'' | Some u \<Rightarrow> u))
          \<and> processing_time_ms (metadata e) =
              (case in_metadata r of None \<Rightarrow> PInt 0
               | Some m \<Rightarrow> (case processingTimeMs m of None \<Rightarrow> PInt 0 | Some t \<Rightarrow> t))
          \<and> source_count (metadata e) =
              (case in_metadata r of None \<Rightarrow> PInt 0
               | Some m \<Rightarrow> (case sourceCount m of None \<Rightarrow> PInt 0 | Some c \<Rightarrow> c)))"
proof -
  have a: "fs (results_file self) = Some data \<and> doc_results data = None \<longrightarrow>
      load_results fs self = Inr (self\<lparr>results := []\<rparr>)"
    by (simp add: load_results_def dict_get_def)
  obtain es where es: "evaluate_each (results self) [] = Inr ([] @ es)"
    "length es = length (results self)"
    using evaluate_each_total [of "results self" "[]"] by blast
  have b: "\<exists>es. fallback_evaluation self =
              Inr (RDict [(''evaluations'', REvals es)], self\<lparr>evaluations := es\<rparr>)
            \<and> length es = length (results self)"
    using es by (simp add: fallback_evaluation_def)
  obtain e where e: "evaluate_result_heuristic r = Inr e"
    "query e = dict_get (in_query r) []"
    "user_role (metadata e) = dict_get (userRole (dict_get (in_metadata r) empty_metadata)) ''unknown''"
    "processing_time_ms (metadata e) =
       dict_get (processingTimeMs (dict_get (in_metadata r) empty_metadata)) (PInt 0)"
    "source_count (metadata e) =
       dict_get (sourceCount (dict_get (in_metadata r) empty_metadata)) (PInt 0)"
    using evaluate_result_heuristic_shape [of r] by force
  have c: "evaluate_result_heuristic (with_defaults r) = Inr e"
    using e(1) by (simp add: evaluate_with_defaults)
  have d: "query e = (case in_query r of None \<Rightarrow> [] | Some q \<Rightarrow> q)"
    using e(2) by (simp add: dict_get_def)
  have f: "user_role (metadata e) =
              (case in_metadata r of None \<Rightarrow> ''unknown''
               | Some m \<Rightarrow> (case userRole m of None \<Rightarrow> ''unknown'' | Some u \<Rightarrow> u))"
    using e(3) by (simp add: dict_get_def empty_metadata_def split: option.splits)
  have g: "processing_time_ms (metadata e) =
              (case in_metadata r of None \<Rightarrow> PInt 0
               | Some m \<Rightarrow> (case processingTimeMs m of None \<Rightarrow> PInt 0 | Some t \<Rightarrow> t))"
    using e(4) by (simp add: dict_get_def empty_metadata_def split: option.splits)
  have h: "source_count (metadata e) =
              (case in_metadata r of None \<Rightarrow> PInt 0
               | Some m \<Rightarrow> (case sourceCount m of None \<Rightarrow> PInt 0 | Some c \<Rightarrow> c))"
    using e(5) by (simp add: dict_get_def empty_metadata_def split: option.splits)
  show ?thesis using a b e(1) c d f g h by blast
qed

text \<open>Claim C9 at a document without results and a result object without keys.\<close>

theorem missing_fields_default_witness:
  "load_results [''rag-test-results.json'' \<mapsto> bare_document] fresh_evaluator = Inr fresh_evaluator
   \<and> (\<exists>e. evaluate_result_heuristic bare_result = Inr e
          \<and> query e = [] \<and> user_role (metadata e) = ''unknown''
          \<and> processing_time_ms (metadata e) = PInt 0 \<and> source_count (metadata e) = PInt 0)"
proof -
  have h: "[''rag-test-results.json'' \<mapsto> bare_document] (results_file fresh_evaluator) = Some bare_document
     \<and> doc_results bare_document = None"
    by (simp add: fresh_evaluator_def bare_document_def)
  have i: "in_query bare_result = None" "in_metadata bare_result = None"
    by (simp_all add: bare_result_def)
  have j: "fresh_evaluator\<lparr>results := []\<rparr> = fresh_evaluator"
    by (simp add: fresh_evaluator_def)
  have "load_results [''rag-test-results.json'' \<mapsto> bare_document] fresh_evaluator = Inr fresh_evaluator
     \<and> (\<exists>e. evaluate_result_heuristic bare_result = Inr e
          \<and> evaluate_result_heuristic (with_defaults bare_result) = Inr e
          \<and> query e = [] \<and> user_role (metadata e) = ''unknown''
          \<and> processing_time_ms (metadata e) = PInt 0 \<and> source_count (metadata e) = PInt 0)"
    using missing_fields_default
      [of "[''rag-test-results.json'' \<mapsto> bare_document]" fresh_evaluator bare_document bare_result]
      h
    by (simp add: i j)
  then show ?thesis by blast
qed

text \<open>
  Claim C3. When the external scorer is available and its call on the prepared dataset
  raises, \<^verbatim>\<open>evaluate_all\<close> and the whole run return what they return when the scorer is
  not available: the same evaluations and the same report, for the same clock reading.
\<close>

theorem raising_scorer_equals_absent:
  assumes "init_evaluator fs ''rag-test-results.json'' = Inr self"
    and "prepare_dataset True self = Some ds"
    and "evaluate ds = RagasRaises"
  shows "evaluate_all True evaluate self = evaluate_all False evaluate' self
     \<and> main True evaluate now fs = main False evaluate' now fs"
  using assms by (simp add: main_def evaluate_all_def)

text \<open>Claim C3 on a file with one record.\<close>

theorem raising_scorer_equals_absent_witness:
  "main True raising_scorer ''2024-01-01T00:00:00'' tiny_files =
     main False answering_scorer ''2024-01-01T00:00:00'' tiny_files
   \<and> run_digest (main True raising_scorer ''2024-01-01T00:00:00'' tiny_files) =
       Inr (Some (Inr 1), Some (Inr (PFloat 1)), 1)"
proof -
  have "raising_scorer tiny_dataset = RagasRaises" by (simp add: raising_scorer_def)
  then have "main True raising_scorer ''2024-01-01T00:00:00'' tiny_files =
     main False answering_scorer ''2024-01-01T00:00:00'' tiny_files"
    using raising_scorer_equals_absent [OF tiny_init tiny_prepare] by blast
  then show ?thesis using tiny_run by simp
qed

text \<open>
  Claim C2 fails on the code. On a file with one record whose heuristic faithfulness is 1, an
  external scorer that answers faithfulness 0.25 is processed into an overall faithfulness of
  0.25, but \<^verbatim>\<open>main\<close> overwrites that with the heuristic report: the run reports 1, and
  returns exactly what it returns without the external scorer.
\<close>

theorem external_aggregate_discarded:
  "process_ragas_results [(''faithfulness'', RNum (PFloat (1 / 4)))] =
       Processed \<lparr>p_overall_metrics = [(''faithfulness'', PFloat (1 / 4))], p_by_role = [],
                  p_raw_results = [(''faithfulness'', RNum (PFloat (1 / 4)))]\<rparr>
   \<and> run_digest (main True answering_scorer ''2024-01-01T00:00:00'' tiny_files) =
       Inr (Some (Inr 1), Some (Inr (PFloat 1)), 1)
   \<and> main True answering_scorer ''2024-01-01T00:00:00'' tiny_files =
       main False answering_scorer ''2024-01-01T00:00:00'' tiny_files"
proof -
  have c: "process_ragas_results [(''faithfulness'', RNum (PFloat (1 / 4)))] =
       Processed \<lparr>p_overall_metrics = [(''faithfulness'', PFloat (1 / 4))], p_by_role = [],
                  p_raw_results = [(''faithfulness'', RNum (PFloat (1 / 4)))]\<rparr>"
    by code_simp
  have "answering_scorer tiny_dataset = RagasReturns (RDict [(''faithfulness'', RNum (PFloat (1 / 4)))])"
    by (simp add: answering_scorer_def)
  then have a: "main True answering_scorer ''2024-01-01T00:00:00'' tiny_files =
       main False answering_scorer ''2024-01-01T00:00:00'' tiny_files"
    using main_ignores_external [OF tiny_init tiny_prepare] by simp
  show ?thesis using a c tiny_run by simp
qed

text \<open>
  Claim C4. The faithfulness score is 0.0 when the response or the document list is empty.
  Otherwise, when the response has a token, it is the fraction of the response's distinct
  lowercased tokens that occur among the tokens of the lowercased documents (joined by single
  spaces, so that these are the tokens of all the documents), capped at 1 and rounded to three
  decimals; when the response has no token, it is 0.
\<close>

theorem faithfulness_is_token_overlap:
  "(response = [] \<or> docs = [] \<longrightarrow>
      calculate_faithfulness_heuristic response docs = Inr (PFloat 0))
   \<and> (response \<noteq> [] \<and> docs \<noteq> [] \<and> tokens response \<noteq> {} \<longrightarrow>
        calculate_faithfulness_heuristic response docs =
          Inr (capped_rounded (overlap_fraction (tokens response) (context_tokens docs))))
   \<and> (response \<noteq> [] \<and> docs \<noteq> [] \<and> tokens response = {} \<longrightarrow>
        calculate_faithfulness_heuristic response docs = Inr (PInt 0))
   \<and> context_tokens docs = (\<Union>d\<in>set docs. tokens d)"
proof -
  have a: "response = [] \<or> docs = [] \<longrightarrow>
      calculate_faithfulness_heuristic response docs = Inr (PFloat 0)"
    by (auto simp add: calculate_faithfulness_heuristic_def)
  have b: "calculate_faithfulness_heuristic response docs =
          Inr (capped_rounded (overlap_fraction (tokens response) (context_tokens docs)))"
    if h: "response \<noteq> [] \<and> docs \<noteq> [] \<and> tokens response \<noteq> {}"
  proof -
    have c: "0 < card (tokens response)" using h by (simp add: tokens_def card_gt_0_iff)
    have "calculate_faithfulness_heuristic response docs =
        py_bind
           (if 0 < card (tokens response)
            then py_truediv (PInt (int (card (tokens response \<inter> context_tokens docs))))
                   (PInt (int (card (tokens response))))
            else Inr (PInt 0))
           (\<lambda>q. Inr (py_round3 (py_min q (PFloat 1))))"
      unfolding calculate_faithfulness_heuristic_def Let_def tokens_def context_tokens_def lower_join
      using h by (simp only: if_False simp_thms)
    then show ?thesis using overlap_score [OF c] by simp
  qed
  have z: "response \<noteq> [] \<and> docs \<noteq> [] \<and> tokens response = {} \<longrightarrow>
        calculate_faithfulness_heuristic response docs = Inr (PInt 0)"
    by (simp add: calculate_faithfulness_heuristic_def tokens_def py_min_def)
  show ?thesis using a b z context_tokens_union by blast
qed

text \<open>Claim C4 at a response of two tokens, one of them in the documents.\<close>

theorem faithfulness_is_token_overlap_witness:
  "calculate_faithfulness_heuristic ''A b'' [''a'', ''C''] =
     Inr (capped_rounded (overlap_fraction {''a'', ''b''} {''a'', ''c''}))
   \<and> calculate_faithfulness_heuristic ''A b'' [''a'', ''C''] = Inr (PFloat (1 / 2))
   \<and> calculate_faithfulness_heuristic ''A b'' [] = Inr (PFloat 0)"
proof -
  have t: "tokens ''A b'' = {''a'', ''b''}" "context_tokens [''a'', ''C''] = {''a'', ''c''}"
    by code_simp+
  have v: "calculate_faithfulness_heuristic ''A b'' [''a'', ''C''] = Inr (PFloat (1 / 2))"
    by code_simp
  have n: "''A b'' \<noteq> [] \<and> [''a'', ''C''] \<noteq> [] \<and> tokens ''A b'' \<noteq> {}"
    by (simp add: t)
  have "calculate_faithfulness_heuristic ''A b'' [''a'', ''C''] =
     Inr (capped_rounded (overlap_fraction {''a'', ''b''} {''a'', ''c''}))"
    using faithfulness_is_token_overlap [of "''A b''" "[''a'', ''C'']"] n by (simp add: t)
  moreover have "calculate_faithfulness_heuristic ''A b'' [] = Inr (PFloat 0)"
    using faithfulness_is_token_overlap [of "''A b''" "[]"] by simp
  ultimately show ?thesis using v by simp
qed

text \<open>
  Claim C8. The relevancy score is 0.0 when the query or the response is empty. Otherwise,
  when the query has a token, it is the fraction of the query's distinct lowercased tokens
  that occur among the tokens of the response, capped at 1 and rounded to three decimals;
  when the query has no token, it is 0.
\<close>

theorem relevancy_is_token_overlap:
  "(q = [] \<or> response = [] \<longrightarrow> calculate_relevancy_heuristic q response = Inr (PFloat 0))
   \<and> (q \<noteq> [] \<and> response \<noteq> [] \<and> tokens q \<noteq> {} \<longrightarrow>
        calculate_relevancy_heuristic q response =
          Inr (capped_rounded (overlap_fraction (tokens q) (tokens response))))
   \<and> (q \<noteq> [] \<and> response \<noteq> [] \<and> tokens q = {} \<longrightarrow>
        calculate_relevancy_heuristic q response = Inr (PInt 0))"
proof -
  have a: "q = [] \<or> response = [] \<longrightarrow> calculate_relevancy_heuristic q response = Inr (PFloat 0)"
    by (auto simp add: calculate_relevancy_heuristic_def)
  have b: "calculate_relevancy_heuristic q response =
          Inr (capped_rounded (overlap_fraction (tokens q) (tokens response)))"
    if h: "q \<noteq> [] \<and> response \<noteq> [] \<and> tokens q \<noteq> {}"
  proof -
    have c: "0 < card (tokens q)" using h by (simp add: tokens_def card_gt_0_iff)
    have "calculate_relevancy_heuristic q response =
        py_bind
           (if 0 < card (tokens q)
            then py_truediv (PInt (int (card (tokens q \<inter> tokens response))))
                   (PInt (int (card (tokens q))))
            else Inr (PInt 0))
           (\<lambda>q. Inr (py_round3 (py_min q (PFloat 1))))"
      unfolding calculate_relevancy_heuristic_def Let_def tokens_def
      using h by (simp only: if_False simp_thms)
    then show ?thesis using overlap_score [OF c] by simp
  qed
  have z: "q \<noteq> [] \<and> response \<noteq> [] \<and> tokens q = {} \<longrightarrow>
        calculate_relevancy_heuristic q response = Inr (PInt 0)"
    by (simp add: calculate_relevancy_heuristic_def tokens_def py_min_def)
  show ?thesis using a b z by blast
qed

text \<open>Claim C8 at a query of two tokens, one of them in the response.\<close>

theorem relevancy_is_token_overlap_witness:
  "calculate_relevancy_heuristic ''A b'' ''a C'' =
     Inr (capped_rounded (overlap_fraction {''a'', ''b''} {''a'', ''c''}))
   \<and> calculate_relevancy_heuristic ''A b'' ''a C'' = Inr (PFloat (1 / 2))
   \<and> calculate_relevancy_heuristic ''A b'' [] = Inr (PFloat 0)"
proof -
  have t: "tokens ''A b'' = {''a'', ''b''}" "tokens ''a C'' = {''a'', ''c''}"
    by code_simp+
  have v: "calculate_relevancy_heuristic ''A b'' ''a C'' = Inr (PFloat (1 / 2))"
    by code_simp
  have n: "''A b'' \<noteq> [] \<and> ''a C'' \<noteq> [] \<and> tokens ''A b'' \<noteq> {}"
    by (simp add: t)
  have "calculate_relevancy_heuristic ''A b'' ''a C'' =
     Inr (capped_rounded (overlap_fraction {''a'', ''b''} {''a'', ''c''}))"
    using relevancy_is_token_overlap [of "''A b''" "''a C''"] n by (simp add: t)
  moreover have "calculate_relevancy_heuristic ''A b'' [] = Inr (PFloat 0)"
    using relevancy_is_token_overlap [of "''A b''" "[]"] by simp
  ultimately show ?thesis using v by simp
qed

text \<open>
  Claim C6. For evaluations that are not empty the aggregation step returns a report; its
  total is their number; the counts of its role entries sum to the total; the keys of
  \<^verbatim>\<open>by_role\<close> are distinct and are exactly the roles of the evaluations; and the count of
  each entry is the number of evaluations of its role, at least 1.
\<close>

theorem role_counts_partition_evaluations:
  assumes "evaluations self \<noteq> []"
  shows "\<exists>rep. calculate_aggregate_metrics now self = Inr (Aggregate rep)
     \<and> total_evaluations rep = int (length (evaluations self))
     \<and> sum_list (map (\<lambda>entry. count (snd entry)) (by_role rep)) = total_evaluations rep
     \<and> set (map fst (by_role rep)) = role_of ` set (evaluations self)
     \<and> distinct (map fst (by_role rep))
     \<and> list_all (\<lambda>entry. 1 \<le> count (snd entry)
                     \<and> count (snd entry) = int (length (group (fst entry) (evaluations self))))
          (by_role rep)"
proof -
  define es where "es = evaluations self"
  define roles where "roles = role_of ` set es"
  obtain rep where rep: "calculate_aggregate_metrics now self = Inr (Aggregate rep)"
    "total_evaluations rep = int (length es)"
    "distinct (map fst (by_role rep))"
    "\<And>R. map_of (by_role rep) R =
              (if R \<in> roles
               then (case summarize_role (role_scores_of (group R es)) of
                       Inr s \<Rightarrow> Some s | Inl err \<Rightarrow> None)
               else None)"
    using aggregate_shape [OF assms, of now] unfolding es_def roles_def by blast
  have look: "\<exists>s. map_of (by_role rep) R = Some s
      \<and> count s = int (length (group R es)) \<and> 1 \<le> count s" if "R \<in> roles" for R
  proof -
    have ne: "group R es \<noteq> []" using that unfolding roles_def by (rule group_nonempty)
    then have "1 \<le> int (length (group R es))" by (cases "group R es") simp_all
    then show ?thesis using summarize_role_scores_of [OF ne] rep(4) [of R] that by auto
  qed
  have miss: "map_of (by_role rep) R = None" if "R \<notin> roles" for R
    using rep(4) [of R] that by simp
  have "dom (map_of (by_role rep)) = roles"
  proof
    show "dom (map_of (by_role rep)) \<subseteq> roles"
    proof
      fix R assume "R \<in> dom (map_of (by_role rep))"
      then have "map_of (by_role rep) R \<noteq> None" by (simp add: dom_def)
      then show "R \<in> roles" by (rule contrapos_np) (rule miss)
    qed
    show "roles \<subseteq> dom (map_of (by_role rep))" using look by (auto simp add: dom_def)
  qed
  then have keys: "set (map fst (by_role rep)) = roles"
    by (simp add: dom_map_of_conv_image_fst)
  have entry: "1 \<le> count (snd entry) \<and> count (snd entry) = int (length (group (fst entry) es))"
    if "entry \<in> set (by_role rep)" for entry
  proof -
    have "map_of (by_role rep) (fst entry) = Some (snd entry)"
      using that rep(3) by simp
    moreover have "fst entry \<in> roles" using that keys by auto
    ultimately show ?thesis using look [of "fst entry"] by auto
  qed
  have m: "map (\<lambda>entry. count (snd entry)) (by_role rep) =
      map (\<lambda>R. int (length (group R es))) (map fst (by_role rep))"
    using entry by simp
  have "sum_list (map (\<lambda>R. int (length (group R es))) (map fst (by_role rep))) = int (length es)"
  proof (rule sum_group_sizes)
    show "distinct (map fst (by_role rep))" by fact
    show "role_of ` set es \<subseteq> set (map fst (by_role rep))" using keys by (simp add: roles_def)
  qed
  then have "sum_list (map (\<lambda>entry. count (snd entry)) (by_role rep)) = int (length es)"
    by (simp only: m)
  then have total: "sum_list (map (\<lambda>entry. count (snd entry)) (by_role rep)) = total_evaluations rep"
    using rep(2) by simp
  have each: "list_all (\<lambda>entry. 1 \<le> count (snd entry)
                     \<and> count (snd entry) = int (length (group (fst entry) es))) (by_role rep)"
    unfolding list_all_iff using entry by blast
  have "set (map fst (by_role rep)) = role_of ` set es" using keys by (simp add: roles_def)
  then show ?thesis
    unfolding es_def [symmetric] using rep(1) rep(2) total rep(3) each by blast
qed

text \<open>Claim C6 at three evaluations, two of role admin and one of role user.\<close>

theorem role_counts_partition_evaluations_witness:
  "\<exists>rep. calculate_aggregate_metrics ''2024-01-01T00:00:00'' scored_evaluator = Inr (Aggregate rep)
     \<and> total_evaluations rep = 3
     \<and> sum_list (map (\<lambda>entry. count (snd entry)) (by_role rep)) = 3
     \<and> set (map fst (by_role rep)) = {''admin'', ''user''}
     \<and> map (\<lambda>entry. count (snd entry)) (by_role rep) = [2, 1]"
proof -
  obtain rep where rep:
    "calculate_aggregate_metrics ''2024-01-01T00:00:00'' scored_evaluator = Inr (Aggregate rep)"
    "total_evaluations rep = int (length (evaluations scored_evaluator))"
    "sum_list (map (\<lambda>entry. count (snd entry)) (by_role rep)) = total_evaluations rep"
    "set (map fst (by_role rep)) = role_of ` set (evaluations scored_evaluator)"
    using role_counts_partition_evaluations [OF scored_nonempty, of "''2024-01-01T00:00:00''"]
    by blast
  have "total_evaluations rep = 3" using rep(2) by (simp add: scored_evaluator_def)
  moreover have "map (\<lambda>entry. count (snd entry)) (by_role rep) = [2, 1]"
    using rep(1) by (auto simp add: scored_run)
  ultimately show ?thesis using rep scored_roles by auto
qed

text \<open>
  Claim C7. For evaluations that are not empty, each of the five overall metrics of the
  report is the mean over all evaluations rounded to three decimals, and for every role of
  the evaluations the role's entry holds, for each of the five, the rounded mean over exactly
  the evaluations of that role.
\<close>

theorem role_means_are_group_means:
  assumes "evaluations self \<noteq> []"
  shows "\<exists>rep. calculate_aggregate_metrics now self = Inr (Aggregate rep)
     \<and> rounded_mean (map (\<lambda>e. faithfulness (metrics e)) (evaluations self)) =
         Inr (avg_faithfulness (overall_metrics rep))
     \<and> rounded_mean (map (\<lambda>e. answer_relevancy (metrics e)) (evaluations self)) =
         Inr (avg_answer_relevancy (overall_metrics rep))
     \<and> rounded_mean (map (\<lambda>e. context_precision (metrics e)) (evaluations self)) =
         Inr (avg_context_precision (overall_metrics rep))
     \<and> rounded_mean (map (\<lambda>e. context_recall (metrics e)) (evaluations self)) =
         Inr (avg_context_recall (overall_metrics rep))
     \<and> rounded_mean (map overall_score (evaluations self)) =
         Inr (avg_overall_score (overall_metrics rep))
     \<and> (\<forall>R \<in> role_of ` set (evaluations self).
          \<exists>entry. map_of (by_role rep) R = Some entry
            \<and> rounded_mean (map (\<lambda>e. faithfulness (metrics e)) (group R (evaluations self))) =
                Inr (avg_faithfulness entry)
            \<and> rounded_mean (map (\<lambda>e. answer_relevancy (metrics e)) (group R (evaluations self))) =
                Inr (avg_answer_relevancy entry)
            \<and> rounded_mean (map (\<lambda>e. context_precision (metrics e)) (group R (evaluations self))) =
                Inr (avg_context_precision entry)
            \<and> rounded_mean (map (\<lambda>e. context_recall (metrics e)) (group R (evaluations self))) =
                Inr (avg_context_recall entry)
            \<and> rounded_mean (map overall_score (group R (evaluations self))) =
                Inr (avg_overall_score entry))"
proof -
  define es where "es = evaluations self"
  have ne: "es \<noteq> []" using assms by (simp add: es_def)
  obtain rep s where rep: "calculate_aggregate_metrics now self = Inr (Aggregate rep)"
    "summarize (scores_of es) = Inr s" "overall_metrics rep = s"
    "\<And>R. map_of (by_role rep) R =
              (if R \<in> role_of ` set es
               then (case summarize_role (role_scores_of (group R es)) of
                       Inr s \<Rightarrow> Some s | Inl err \<Rightarrow> None)
               else None)"
    using aggregate_shape [OF assms, of now] unfolding es_def by blast
  have overall:
    "rounded_mean (map (\<lambda>e. faithfulness (metrics e)) es) = Inr (avg_faithfulness (overall_metrics rep))"
    "rounded_mean (map (\<lambda>e. answer_relevancy (metrics e)) es) = Inr (avg_answer_relevancy (overall_metrics rep))"
    "rounded_mean (map (\<lambda>e. context_precision (metrics e)) es) = Inr (avg_context_precision (overall_metrics rep))"
    "rounded_mean (map (\<lambda>e. context_recall (metrics e)) es) = Inr (avg_context_recall (overall_metrics rep))"
    "rounded_mean (map overall_score es) = Inr (avg_overall_score (overall_metrics rep))"
    using summarize_scores_of [OF ne] rep(2,3) by auto
  have per_role: "\<exists>entry. map_of (by_role rep) R = Some entry
            \<and> rounded_mean (map (\<lambda>e. faithfulness (metrics e)) (group R es)) =
                Inr (avg_faithfulness entry)
            \<and> rounded_mean (map (\<lambda>e. answer_relevancy (metrics e)) (group R es)) =
                Inr (avg_answer_relevancy entry)
            \<and> rounded_mean (map (\<lambda>e. context_precision (metrics e)) (group R es)) =
                Inr (avg_context_precision entry)
            \<and> rounded_mean (map (\<lambda>e. context_recall (metrics e)) (group R es)) =
                Inr (avg_context_recall entry)
            \<and> rounded_mean (map overall_score (group R es)) =
                Inr (avg_overall_score entry)"
    if "R \<in> role_of ` set es" for R
  proof -
    have g: "group R es \<noteq> []" using that by (rule group_nonempty)
    show ?thesis using summarize_role_scores_of [OF g] rep(4) [of R] that by auto
  qed
  show ?thesis
    unfolding es_def [symmetric] using rep(1) overall per_role by blast
qed

text \<open>Claim C7 at the role admin of the three evaluations.\<close>

theorem role_means_are_group_means_witness:
  "\<exists>rep entry.
     calculate_aggregate_metrics ''2024-01-01T00:00:00'' scored_evaluator = Inr (Aggregate rep)
     \<and> map_of (by_role rep) ''admin'' = Some entry
     \<and> rounded_mean [PFloat 1, PFloat 0] = Inr (avg_faithfulness entry)
     \<and> avg_faithfulness entry = PFloat (1 / 2)
     \<and> rounded_mean [PFloat 1, PFloat (1 / 2), PFloat 0] =
         Inr (avg_faithfulness (overall_metrics rep))"
proof -
  obtain rep where rep:
    "calculate_aggregate_metrics ''2024-01-01T00:00:00'' scored_evaluator = Inr (Aggregate rep)"
    "rounded_mean (map (\<lambda>e. faithfulness (metrics e)) (evaluations scored_evaluator)) =
         Inr (avg_faithfulness (overall_metrics rep))"
    "\<forall>R \<in> role_of ` set (evaluations scored_evaluator).
          \<exists>entry. map_of (by_role rep) R = Some entry
            \<and> rounded_mean (map (\<lambda>e. faithfulness (metrics e))
                  (group R (evaluations scored_evaluator))) = Inr (avg_faithfulness entry)"
    using role_means_are_group_means [OF scored_nonempty, of "''2024-01-01T00:00:00''"]
    by blast
  have "''admin'' \<in> role_of ` set (evaluations scored_evaluator)"
    by (simp add: scored_roles)
  then obtain entry where entry: "map_of (by_role rep) ''admin'' = Some entry"
    "rounded_mean (map (\<lambda>e. faithfulness (metrics e))
        (group ''admin'' (evaluations scored_evaluator))) = Inr (avg_faithfulness entry)"
    using rep(3) by blast
  have a: "rounded_mean [PFloat 1, PFloat 0] = Inr (avg_faithfulness entry)"
    using entry(2) by (simp add: scored_admin graded_def)
  have b: "avg_faithfulness entry = PFloat (1 / 2)"
    using entry(1) rep(1) by (auto simp add: scored_run)
  have c: "rounded_mean [PFloat 1, PFloat (1 / 2), PFloat 0] =
         Inr (avg_faithfulness (overall_metrics rep))"
    using rep(2) by (simp add: scored_evaluator_def graded_def)
  show ?thesis using rep(1) entry(1) a b c by blast
qed

section \<open>A further property\<close>

text \<open>
  Property X1. When the input file exists and holds no records, a run without the external
  scorer, or with one that raises, ends with \<^verbatim>\<open>KeyError\<close>: the aggregation step returns
  \<^verbatim>\<open>{}\<close> and \<^verbatim>\<open>print_summary\<close> subscripts it with \<^verbatim>\<open>total_evaluations\<close>.
\<close>

theorem empty_run_fails_at_summary:
  assumes "fs ''rag-test-results.json'' = Some data"
    and "dict_get (doc_results data) [] = []"
  shows "main False evaluate now fs = Inl KeyError
     \<and> main True (\<lambda>ds. RagasRaises) now fs = Inl KeyError"
  using assms
  by (simp add: main_def init_evaluator_def load_results_def evaluate_all_def
      fallback_evaluation_def prepare_dataset_def aggregate_stored_def
      calculate_aggregate_metrics_def print_summary_def)

text \<open>Property X1 at a document without results.\<close>

theorem empty_run_fails_at_summary_witness:
  "main False answering_scorer ''2024-01-01T00:00:00'' [''rag-test-results.json'' \<mapsto> bare_document]
     = Inl KeyError"
proof -
  have "[''rag-test-results.json'' \<mapsto> bare_document] ''rag-test-results.json'' = Some bare_document"
    by simp
  moreover have "dict_get (doc_results bare_document) [] = []"
    by (simp add: bare_document_def dict_get_def)
  ultimately show ?thesis
    using empty_run_fails_at_summary [of "[''rag-test-results.json'' \<mapsto> bare_document]" bare_document]
    by blast
qed

end
